theory Spec2Isabelle
  imports Complex_Main "HOL-Library.Multiset"
begin

section \<open>Shared data model\<close>

text \<open>
  Exceptions of the Python source, as values. \<open>AssertionError\<close> carries the message of
  the failed \<^verbatim>\<open>assert\<close>; \<open>ValueError\<close> is raised by a tuple unpacking of the wrong
  length, \<open>IndexError\<close> by an index out of range, \<open>RuntimeError\<close> by a tensor operation
  applied outside its domain (\<^verbatim>\<open>topk\<close> with a bad \<open>k\<close>, \<^verbatim>\<open>stack\<close> of rows of
  different sizes), \<open>TypeError\<close> by subscripting \<^verbatim>\<open>None\<close>.
\<close>

datatype error = AssertionError string | ValueError | IndexError | RuntimeError | TypeError

text \<open>
  An entry of a prediction tensor: the finite values, the two infinities and NaN.
  \<^verbatim>\<open>torch.isfinite\<close> holds of the finite values only.
\<close>

datatype float32 = Finite real | PosInf | NegInf | NaN

fun isfinite :: "float32 \<Rightarrow> bool" where
  "isfinite (Finite r) = True"
| "isfinite PosInf = False"
| "isfinite NegInf = False"
| "isfinite NaN = False"

type_synonym bbox = "real \<times> real \<times> real \<times> real"

text \<open>\<^verbatim>\<open>mask.nonzero().reshape(-1)\<close>: the positions at which a boolean tensor is true,
  in increasing order.\<close>

definition nonzero :: "bool list \<Rightarrow> nat list" where
  "nonzero bs = filter (\<lambda>i. bs ! i) [0..<length bs]"

text \<open>\<^verbatim>\<open>t[inds]\<close> for a tensor of indices: the selected entries in the order of the
  indices; an index past the end raises.\<close>

definition index_select :: "'a list \<Rightarrow> nat list \<Rightarrow> error + 'a list" where
  "index_select xs inds =
     (if \<forall>i \<in> set inds. i < length xs then Inr (map (\<lambda>i. xs ! i) inds)
      else Inl IndexError)"

text \<open>\<^verbatim>\<open>t.topk(k)\<close>: the \<open>k\<close> largest entries in descending order; \<open>k\<close> outside
  \<open>0..len(t)\<close> raises.\<close>

definition topk :: "real list \<Rightarrow> int \<Rightarrow> error + real list" where
  "topk xs k =
     (if k < 0 \<or> int (length xs) < k then Inl RuntimeError
      else Inr (take (nat k) (rev (sort xs))))"

text \<open>Sequencing of steps that may raise: the first exception ends the computation.\<close>

definition then_do :: "error + 'a \<Rightarrow> ('a \<Rightarrow> error + 'b) \<Rightarrow> error + 'b" where
  "then_do m f = (case m of Inl e \<Rightarrow> Inl e | Inr x \<Rightarrow> f x)"

fun map_raising :: "('a \<Rightarrow> error + 'b) \<Rightarrow> 'a list \<Rightarrow> error + 'b list" where
  "map_raising f [] = Inr []"
| "map_raising f (x # xs) =
     then_do (f x) (\<lambda>y. then_do (map_raising f xs) (\<lambda>ys. Inr (y # ys)))"

text \<open>\<^verbatim>\<open>t[inds] = v\<close> for a scalar \<open>v\<close> and \<^verbatim>\<open>t[inds] = vs\<close> for a tensor
  \<open>vs\<close> with one entry per index.\<close>

definition index_fill :: "'a list \<Rightarrow> nat list \<Rightarrow> 'a \<Rightarrow> error + 'a list" where
  "index_fill xs inds v =
     (if \<forall>i \<in> set inds. i < length xs then Inr (fold (\<lambda>i ys. ys[i := v]) inds xs)
      else Inl IndexError)"

definition index_put :: "'a list \<Rightarrow> nat list \<Rightarrow> 'a list \<Rightarrow> error + 'a list" where
  "index_put xs inds vs =
     (if \<not> (\<forall>i \<in> set inds. i < length xs) then Inl IndexError
      else if length vs \<noteq> length inds then Inl RuntimeError
      else Inr (fold (\<lambda>(i, v) ys. ys[i := v]) (zip inds vs) xs))"

text \<open>\<^verbatim>\<open>t[flags, :]\<close> for a boolean mask of the length of \<open>t\<close>.\<close>

definition mask_select :: "'a list \<Rightarrow> bool list \<Rightarrow> error + 'a list" where
  "mask_select xs flags =
     (if length flags \<noteq> length xs then Inl IndexError
      else Inr (map fst (filter snd (zip xs flags))))"

text \<open>\<^verbatim>\<open>torch.split(t, sizes)\<close>: consecutive chunks of the given sizes, which must
  add up to the length of \<open>t\<close>.\<close>

fun chunks :: "'a list \<Rightarrow> nat list \<Rightarrow> 'a list list" where
  "chunks xs [] = []"
| "chunks xs (n # ns) = take n xs # chunks (drop n xs) ns"

definition split_sizes :: "'a list \<Rightarrow> nat list \<Rightarrow> error + 'a list list" where
  "split_sizes xs sizes =
     (if sum_list sizes \<noteq> length xs then Inl RuntimeError else Inr (chunks xs sizes))"

text \<open>The number of true entries of a boolean tensor.\<close>

definition count_true :: "bool list \<Rightarrow> nat" where
  "count_true flags = length (filter (\<lambda>b. b) flags)"

section \<open>Collaborators outside the two source files\<close>

text \<open>
  Modelled from the spec: the \<^verbatim>\<open>AssignResult\<close> of \<^verbatim>\<open>mmdet.core\<close> is not in the source;
  the spec's data model has, for each anchor, BACKGROUND, IGNORE or the index of a
  ground-truth instance.
\<close>

datatype assignment = BACKGROUND | IGNORE | Matched nat

text \<open>
  Modelled from the spec: the \<^verbatim>\<open>SamplingResult\<close> of \<^verbatim>\<open>mmdet.core\<close> is not in the
  source; the spec's sampler interface returns the positive indices, the negative
  indices, the ground-truth index of each positive, the positive boxes and their
  ground-truth boxes.
\<close>

record sampling_result =
  pos_inds :: "nat list"
  neg_inds :: "nat list"
  pos_assigned_gt_inds :: "nat list"
  pos_bboxes :: "bbox list"
  pos_gt_bboxes :: "bbox list"

type_synonym mask = "real list list"

record img_meta =
  img_shape :: "nat \<times> nat"

text \<open>
  The configuration of the head (\<^verbatim>\<open>self\<close> and \<^verbatim>\<open>self.train_cfg\<close>):
  \<open>num_levels\<close> is \<^verbatim>\<open>self.anchor_generator.num_levels\<close>, \<open>iou_assign\<close> is 0 for the
  two ATSS assigners and 1 otherwise, \<open>sampling\<close> is \<^verbatim>\<open>self.sampling\<close>.
\<close>

record head_cfg =
  background_label :: int
  neg_pos_ratio :: int
  reg_decoded_bbox :: bool
  pos_weight :: real
  allowed_border :: int
  iou_assign :: nat
  sampling :: bool
  use_ohem :: bool
  num_levels :: nat

text \<open>
  The components that the head calls and that are defined elsewhere, as parameters:
  \<^verbatim>\<open>anchor_inside_flags\<close>, the two assigner variants, the sampler, the box coder,
  the two configured losses, the anchor generator behind \<^verbatim>\<open>get_anchors\<close>, and
  \<^verbatim>\<open>AnchorHead.loss_single\<close> (used without OHEM).
\<close>

record collab =
  anchor_inside_flags :: "bbox list \<Rightarrow> bool list \<Rightarrow> nat \<times> nat \<Rightarrow> int \<Rightarrow> bool list"
  assign_iou :: "bbox list \<Rightarrow> bbox list \<Rightarrow> mask list \<Rightarrow> bbox list option \<Rightarrow>
                 int list option \<Rightarrow> assignment list"
  assign_atss :: "bbox list \<Rightarrow> nat list \<Rightarrow> bbox list \<Rightarrow> bbox list option \<Rightarrow>
                  int list option \<Rightarrow> mask list \<Rightarrow> assignment list"
  sample :: "assignment list \<Rightarrow> bbox list \<Rightarrow> bbox list \<Rightarrow> sampling_result"
  encode :: "bbox list \<Rightarrow> bbox list \<Rightarrow> bbox list"
  decode :: "bbox list \<Rightarrow> float32 list list \<Rightarrow> float32 list list"
  loss_cls :: "float32 list list \<Rightarrow> int list \<Rightarrow> real list \<Rightarrow> real list"
  loss_bbox :: "float32 list list \<Rightarrow> bbox list \<Rightarrow> bbox list \<Rightarrow> real \<Rightarrow> real"
  get_anchors :: "(nat \<times> nat) list \<Rightarrow> img_meta list \<Rightarrow>
                  bbox list list list \<times> bool list list list"
  loss_single :: "float32 list list list \<Rightarrow> float32 list list list \<Rightarrow> bbox list list \<Rightarrow>
                  int list list \<Rightarrow> real list list \<Rightarrow> bbox list list \<Rightarrow> bbox list list \<Rightarrow>
                  real \<Rightarrow> real \<times> real"

text \<open>
  Modelled from the spec: \<^verbatim>\<open>unmap\<close> of \<^verbatim>\<open>mmdet.core\<close> is not in the source. The spec:
  re-expand from the valid subset back to the full anchor count, filling unmapped
  slots with the fill value. Slot \<open>i\<close> of the result holds the fill value when flag
  \<open>i\<close> is off, and otherwise the entry of the data whose rank among the valid anchors
  is the number of flags on before \<open>i\<close>.
\<close>

definition unmap :: "'a list \<Rightarrow> nat \<Rightarrow> bool list \<Rightarrow> 'a \<Rightarrow> error + 'a list" where
  "unmap data cnt inds fill =
     (if length inds \<noteq> cnt \<or> count_true inds \<noteq> length data then Inl RuntimeError
      else Inr (map (\<lambda>i. if inds ! i then data ! count_true (take i inds) else fill)
                  [0..<cnt]))"

text \<open>
  Modelled from the spec: \<^verbatim>\<open>multi_apply\<close> of \<^verbatim>\<open>mmdet.core\<close> is not in the source. The
  spec: per-image results are concatenated over the batch. The function is applied to
  each image and field \<open>j\<close> of the result collects field \<open>j\<close> of every image's tuple;
  as with Python's \<^verbatim>\<open>zip\<close>, there are as many fields as the shortest tuple has, and
  none for an empty batch.
\<close>

fun zip_star :: "'a list list \<Rightarrow> 'a list list" where
  "zip_star [] = []"
| "zip_star (r # rs) =
     map (\<lambda>j. map (\<lambda>row. row ! j) (r # rs)) [0..<fold min (map length rs) (length r)]"

definition multi_apply :: "('a \<Rightarrow> error + 'b list) \<Rightarrow> 'a list \<Rightarrow> error + 'b list list" where
  "multi_apply f args = then_do (map_raising f args) (\<lambda>rows. Inr (zip_star rows))"

text \<open>
  Modelled from the spec: \<^verbatim>\<open>images_to_levels\<close> of \<^verbatim>\<open>mmdet.core\<close> is not in the source.
  The spec: per-image results are stacked over the batch, then re-split into one tensor
  per pyramid level. Stacking needs rows of one length; level \<open>l\<close> holds, for each
  image, the slice of its row that belongs to the level.
\<close>

fun level_slices :: "'a list list \<Rightarrow> nat \<Rightarrow> nat list \<Rightarrow> 'a list list list" where
  "level_slices target start [] = []"
| "level_slices target start (n # ns) =
     map (\<lambda>row. take n (drop start row)) target # level_slices target (start + n) ns"

definition images_to_levels :: "'a list list \<Rightarrow> nat list \<Rightarrow> error + 'a list list list" where
  "images_to_levels target num_level_anchors =
     (if \<exists>row \<in> set target. length row \<noteq> length (hd target) then Inl RuntimeError
      else Inr (level_slices target 0 num_level_anchors))"

section \<open>YOLACTHead: target assignment\<close>

text \<open>A value of a Python tuple returned by \<^verbatim>\<open>_get_targets_single\<close>.\<close>

datatype pyval =
    PyNone
  | Labels "int list"
  | Weights "real list"
  | Boxes "bbox list"
  | Inds "nat list"
  | Sampling sampling_result

fun labels_of :: "pyval \<Rightarrow> int list" where
  "labels_of (Labels l) = l"
| "labels_of _ = []"

fun weights_of :: "pyval \<Rightarrow> real list" where
  "weights_of (Weights w) = w"
| "weights_of _ = []"

fun boxes_of :: "pyval \<Rightarrow> bbox list" where
  "boxes_of (Boxes b) = b"
| "boxes_of _ = []"

fun inds_of :: "pyval \<Rightarrow> nat list" where
  "inds_of (Inds i) = i"
| "inds_of _ = []"

fun sampling_of :: "pyval \<Rightarrow> sampling_result option" where
  "sampling_of (Sampling s) = Some s"
| "sampling_of _ = None"

definition get_num_level_anchors_inside :: "nat list \<Rightarrow> bool list \<Rightarrow> error + nat list" where
  "get_num_level_anchors_inside num_level_anchors inside_flags =
     then_do (split_sizes inside_flags num_level_anchors)
       (\<lambda>split_inside_flags. Inr (map count_true split_inside_flags))"

text \<open>
  Lines 207 to 234 of \<^verbatim>\<open>_get_targets_single\<close>: the targets of the valid anchors,
  all background with weight zero at first, and then the block that writes the
  positive anchors. The order is labels, label weights, box targets, box weights.
\<close>

definition fill_positive ::
  "head_cfg \<Rightarrow> collab \<Rightarrow> nat \<Rightarrow> int list option \<Rightarrow> sampling_result \<Rightarrow>
   error + (int list \<times> real list \<times> bbox list \<times> bbox list)" where
  "fill_positive cfg ext num_valid_anchors gt_labels sampling_result =
   (let bbox_targets0 = replicate num_valid_anchors (0, 0, 0, 0);
        bbox_weights0 = replicate num_valid_anchors (0, 0, 0, 0);
        labels0 = replicate num_valid_anchors (background_label cfg);
        label_weights0 = replicate num_valid_anchors 0;
        pos = pos_inds sampling_result
    in
    if length pos > 0 then
      then_do (index_put bbox_targets0 pos
                 (if \<not> reg_decoded_bbox cfg
                  then encode ext (pos_bboxes sampling_result)
                         (pos_gt_bboxes sampling_result)
                  else pos_gt_bboxes sampling_result)) (\<lambda>bbox_targets.
      then_do (index_fill bbox_weights0 pos (1, 1, 1, 1)) (\<lambda>bbox_weights.
      then_do (case gt_labels of
                 None \<Rightarrow> index_fill labels0 pos 1
               | Some gl \<Rightarrow>
                   then_do (index_select gl (pos_assigned_gt_inds sampling_result))
                     (\<lambda>vs. index_put labels0 pos vs)) (\<lambda>labels.
      then_do (if pos_weight cfg \<le> 0 then index_fill label_weights0 pos 1
               else index_fill label_weights0 pos (pos_weight cfg)) (\<lambda>label_weights.
      Inr (labels, label_weights, bbox_targets, bbox_weights)))))
    else Inr (labels0, label_weights0, bbox_targets0, bbox_weights0))"

text \<open>Lines 235 and 236 after that block: the negative anchors get label weight 1.\<close>

definition fill_targets ::
  "head_cfg \<Rightarrow> collab \<Rightarrow> nat \<Rightarrow> int list option \<Rightarrow> sampling_result \<Rightarrow>
   error + (int list \<times> real list \<times> bbox list \<times> bbox list)" where
  "fill_targets cfg ext num_valid_anchors gt_labels sampling_result =
   then_do (fill_positive cfg ext num_valid_anchors gt_labels sampling_result)
     (\<lambda>(labels, label_weights1, bbox_targets, bbox_weights).
   (let neg = neg_inds sampling_result in
    then_do (if length neg > 0 then index_fill label_weights1 neg 1
             else Inr label_weights1) (\<lambda>label_weights.
    Inr (labels, label_weights, bbox_targets, bbox_weights))))"

text \<open>Lines 239 to 249: the four \<^verbatim>\<open>unmap\<close> calls.\<close>

definition unmap_targets ::
  "head_cfg \<Rightarrow> nat \<Rightarrow> bool list \<Rightarrow> int list \<times> real list \<times> bbox list \<times> bbox list \<Rightarrow>
   error + (int list \<times> real list \<times> bbox list \<times> bbox list)" where
  "unmap_targets cfg num_total_anchors inside_flags t =
   (let (labels, label_weights, bbox_targets, bbox_weights) = t in
    then_do (unmap labels num_total_anchors inside_flags (background_label cfg))
      (\<lambda>labels'.
    then_do (unmap label_weights num_total_anchors inside_flags 0) (\<lambda>label_weights'.
    then_do (unmap bbox_targets num_total_anchors inside_flags (0, 0, 0, 0))
      (\<lambda>bbox_targets'.
    then_do (unmap bbox_weights num_total_anchors inside_flags (0, 0, 0, 0))
      (\<lambda>bbox_weights'.
    Inr (labels', label_weights', bbox_targets', bbox_weights'))))))"

text \<open>
  \<^verbatim>\<open>_get_targets_single\<close>. The result is the Python tuple: six \<^verbatim>\<open>None\<close> when no
  anchor is inside the valid region, seven fields otherwise.
\<close>

definition get_targets_single ::
  "head_cfg \<Rightarrow> collab \<Rightarrow> bbox list \<Rightarrow> bool list \<Rightarrow> nat list \<Rightarrow> bbox list \<Rightarrow>
   bbox list option \<Rightarrow> int list option \<Rightarrow> mask list \<Rightarrow> img_meta \<Rightarrow> bool \<Rightarrow>
   error + pyval list" where
  "get_targets_single cfg ext flat_anchors valid_flags num_level_anchors gt_bboxes
     gt_bboxes_ignore gt_labels gt_masks meta unmap_outputs =
   (let inside_flags = anchor_inside_flags ext flat_anchors valid_flags (img_shape meta)
                         (allowed_border cfg)
    in if \<not> list_ex (\<lambda>b. b) inside_flags then Inr (replicate 6 PyNone)
       else
        then_do (mask_select flat_anchors inside_flags) (\<lambda>anchors.
        then_do
          (if iou_assign cfg = 1
           then Inr (assign_iou ext anchors gt_bboxes gt_masks gt_bboxes_ignore
                       (if sampling cfg then None else gt_labels))
           else then_do (get_num_level_anchors_inside num_level_anchors inside_flags)
                  (\<lambda>num_level_anchors_inside.
                     Inr (assign_atss ext anchors num_level_anchors_inside gt_bboxes
                            gt_bboxes_ignore gt_labels gt_masks)))
          (\<lambda>assign_result.
        (let sampling_result = sample ext assign_result anchors gt_bboxes in
         then_do (fill_targets cfg ext (length anchors) gt_labels sampling_result)
           (\<lambda>valid_targets.
         then_do (if unmap_outputs
                  then unmap_targets cfg (length flat_anchors) inside_flags valid_targets
                  else Inr valid_targets)
           (\<lambda>(labels, label_weights, bbox_targets, bbox_weights).
         Inr [Labels labels, Weights label_weights, Boxes bbox_targets,
              Boxes bbox_weights, Inds (pos_inds sampling_result),
              Inds (neg_inds sampling_result), Sampling sampling_result]))))))"

text \<open>The targets of a batch, as \<^verbatim>\<open>get_targets\<close> returns them when there are some.\<close>

record targets =
  labels_list :: "int list list list"
  label_weights_list :: "real list list list"
  bbox_targets_list :: "bbox list list list"
  bbox_weights_list :: "bbox list list list"
  num_total_pos :: nat
  num_total_neg :: nat
  sampling_results_list :: "sampling_result list option"

text \<open>
  \<^verbatim>\<open>get_targets\<close>. The result \<open>Inr None\<close> is the Python \<^verbatim>\<open>None\<close>. The lists of a
  batch are walked together, image by image, up to the shortest one. The argument
  \<^verbatim>\<open>label_channels\<close> is passed on and never read, and is left out.
\<close>

definition get_targets ::
  "head_cfg \<Rightarrow> collab \<Rightarrow> bbox list list list \<Rightarrow> bool list list list \<Rightarrow> bbox list list \<Rightarrow>
   img_meta list \<Rightarrow> bbox list list option \<Rightarrow> int list list option \<Rightarrow> mask list list \<Rightarrow>
   bool \<Rightarrow> bool \<Rightarrow> error + targets option" where
  "get_targets cfg ext anchor_list valid_flag_list gt_bboxes_list img_metas
     gt_bboxes_ignore_list gt_labels_list gt_masks_list unmap_outputs
     return_sampling_results =
   (let num_imgs = length img_metas in
    if \<not> (length anchor_list = length valid_flag_list \<and> length valid_flag_list = num_imgs)
    then Inl (AssertionError [])
    else if anchor_list = [] then Inl IndexError
    else
     (let num_level_anchors = map length (anchor_list ! 0) in
      if \<exists>i \<in> set [0..<num_imgs]. length (anchor_list ! i) \<noteq> length (valid_flag_list ! i)
      then Inl (AssertionError [])
      else
       (let concat_anchor_list = map concat anchor_list;
            concat_valid_flag_list = map concat valid_flag_list;
            num_level_anchors_list = replicate num_imgs num_level_anchors;
            ignore_list = (case gt_bboxes_ignore_list of
                             None \<Rightarrow> replicate num_imgs None
                           | Some l \<Rightarrow> map Some l);
            labels_in = (case gt_labels_list of
                           None \<Rightarrow> replicate num_imgs None
                         | Some l \<Rightarrow> map Some l)
        in
        then_do
          (multi_apply
             (\<lambda>(flat_anchors, valid_flags, nla, gt_bboxes, gt_bboxes_ignore, gt_labels,
                 gt_masks, meta).
                get_targets_single cfg ext flat_anchors valid_flags nla gt_bboxes
                  gt_bboxes_ignore gt_labels gt_masks meta unmap_outputs)
             (zip concat_anchor_list (zip concat_valid_flag_list (zip num_level_anchors_list
               (zip gt_bboxes_list (zip ignore_list (zip labels_in
                 (zip gt_masks_list img_metas))))))))
          (\<lambda>results.
        (case take 7 results of
           [all_labels, all_label_weights, all_bbox_targets, all_bbox_weights,
            pos_inds_list, neg_inds_list, sampling_results] \<Rightarrow>
             if list_ex (\<lambda>labels. labels = PyNone) all_labels then Inr None
             else
              (let total_pos = sum_list (map (\<lambda>inds. max (length (inds_of inds)) 1)
                                           pos_inds_list);
                   total_neg = sum_list (map (\<lambda>inds. max (length (inds_of inds)) 1)
                                           neg_inds_list)
               in
               then_do (images_to_levels (map labels_of all_labels) num_level_anchors)
                 (\<lambda>ll.
               then_do (images_to_levels (map weights_of all_label_weights)
                          num_level_anchors) (\<lambda>lwl.
               then_do (images_to_levels (map boxes_of all_bbox_targets)
                          num_level_anchors) (\<lambda>btl.
               then_do (images_to_levels (map boxes_of all_bbox_weights)
                          num_level_anchors) (\<lambda>bwl.
               Inr (Some \<lparr>labels_list = ll, label_weights_list = lwl,
                          bbox_targets_list = btl, bbox_weights_list = bwl,
                          num_total_pos = total_pos, num_total_neg = total_neg,
                          sampling_results_list =
                            (if return_sampling_results
                             then Some (map (\<lambda>s. the (sampling_of s)) sampling_results)
                             else None)\<rparr>))))))
         | _ \<Rightarrow> Inl ValueError)))))"

section \<open>YOLACTHead.loss_single_OHEM\<close>

text \<open>
  The per-image loss with online hard-example mining. \<open>loss_cls\<close> is
  \<^verbatim>\<open>self.loss_cls\<close> (cross entropy with \<^verbatim>\<open>reduction='none'\<close>, one loss per anchor),
  \<open>loss_bbox\<close> is \<^verbatim>\<open>self.loss_bbox\<close> with its \<^verbatim>\<open>avg_factor\<close> as last argument.
\<close>

text \<open>The positive anchors of an image (label in \<open>[0, background_label)\<close>) and
  its negative anchors (label \<open>background_label\<close>), as the loss finds them.\<close>

definition ohem_pos_inds :: "head_cfg \<Rightarrow> int list \<Rightarrow> nat list" where
  "ohem_pos_inds cfg labels = nonzero (map (\<lambda>l. 0 \<le> l \<and> l < background_label cfg) labels)"

definition ohem_neg_inds :: "head_cfg \<Rightarrow> int list \<Rightarrow> nat list" where
  "ohem_neg_inds cfg labels = nonzero (map (\<lambda>l. l = background_label cfg) labels)"

definition loss_single_OHEM ::
  "head_cfg \<Rightarrow> collab \<Rightarrow> float32 list list \<Rightarrow> float32 list list \<Rightarrow> bbox list \<Rightarrow>
   int list \<Rightarrow> real list \<Rightarrow> bbox list \<Rightarrow> bbox list \<Rightarrow> real \<Rightarrow> error + (real \<times> real)" where
  "loss_single_OHEM cfg ext cls_score bbox_pred anchors labels label_weights bbox_targets
     bbox_weights num_total_samples =
   (let loss_cls_all = loss_cls ext cls_score labels label_weights;
        pos = ohem_pos_inds cfg labels;
        neg = ohem_neg_inds cfg labels;
        num_pos_samples = length pos;
        num_neg_samples =
          (if num_pos_samples = 0 then int (length neg)
           else (let n = neg_pos_ratio cfg * int num_pos_samples
                 in if n > int (length neg) then int (length neg) else n))
    in then_do (index_select loss_cls_all neg) (\<lambda>loss_cls_neg_all.
       then_do (topk loss_cls_neg_all num_neg_samples) (\<lambda>topk_loss_cls_neg.
       then_do (index_select loss_cls_all pos) (\<lambda>loss_cls_pos_all.
         (let loss_cls_pos = sum_list loss_cls_pos_all;
              loss_cls_neg = sum_list topk_loss_cls_neg;
              loss_cls_v = (loss_cls_pos + loss_cls_neg) / num_total_samples;
              bbox_pred' = (if reg_decoded_bbox cfg then decode ext anchors bbox_pred
                            else bbox_pred);
              loss_bbox_v = loss_bbox ext bbox_pred' bbox_targets bbox_weights
                              num_total_samples
          in Inr (loss_cls_v, loss_bbox_v))))))"

section \<open>YOLACTHead.loss\<close>

text \<open>
  A prediction tensor of one pyramid level, of shape \<open>(N, A * C, H, W)\<close>: the size
  \<open>(H, W)\<close> of the feature map and, for each image, the rows of \<open>C\<close> channels of
  its \<open>H * W * A\<close> anchors, that is the layout after
  \<^verbatim>\<open>permute(0, 2, 3, 1).reshape(num_images, -1, C)\<close>. Every level has one block per
  image of the batch.
\<close>

record level_tensor =
  featmap_size :: "nat \<times> nat"
  per_image :: "float32 list list list"

text \<open>\<^verbatim>\<open>torch.cat\<close> of the levels along the anchor axis: for each image, its rows of
  all levels in turn.\<close>

definition cat_levels :: "nat \<Rightarrow> 'a list list list \<Rightarrow> 'a list list" where
  "cat_levels num_images levels =
     map (\<lambda>i. concat (map (\<lambda>lvl. lvl ! i) levels)) [0..<num_images]"

text \<open>\<^verbatim>\<open>torch.isfinite(t).all()\<close> over the tensors of all levels.\<close>

definition all_finite :: "level_tensor list \<Rightarrow> bool" where
  "all_finite ts =
     list_all (\<lambda>t. list_all (\<lambda>img. list_all (\<lambda>row. list_all isfinite row) img)
                      (per_image t)) ts"

definition cls_scores_msg :: string where
  "cls_scores_msg = ''classification scores become infinite or NaN!''"

definition bbox_preds_msg :: string where
  "bbox_preds_msg = ''bbox predications become infinite or NaN!''"

text \<open>
  \<^verbatim>\<open>YOLACTHead.loss\<close>. The result \<open>Inr None\<close> is the Python \<^verbatim>\<open>None\<close>; otherwise the
  two lists of the loss dictionary and the sampling results.
\<close>

definition loss ::
  "head_cfg \<Rightarrow> collab \<Rightarrow> level_tensor list \<Rightarrow> level_tensor list \<Rightarrow> bbox list list \<Rightarrow>
   int list list \<Rightarrow> img_meta list \<Rightarrow> mask list list \<Rightarrow> bbox list list option \<Rightarrow>
   error + ((real list \<times> real list) \<times> sampling_result list) option" where
  "loss cfg ext cls_scores bbox_preds gt_bboxes gt_labels img_metas gt_masks
     gt_bboxes_ignore =
   (let featmap_sizes = map featmap_size cls_scores in
    if length featmap_sizes \<noteq> num_levels cfg then Inl (AssertionError [])
    else
     (let (anchor_list, valid_flag_list) = get_anchors ext featmap_sizes img_metas in
      then_do (get_targets cfg ext anchor_list valid_flag_list gt_bboxes img_metas
                 gt_bboxes_ignore (Some gt_labels) gt_masks (\<not> use_ohem cfg) True)
        (\<lambda>cls_reg_targets.
      case cls_reg_targets of
        None \<Rightarrow> Inr None
      | Some tg \<Rightarrow>
         (let sampling_results = (case sampling_results_list tg of
                                    None \<Rightarrow> [] | Some srs \<Rightarrow> srs)
          in
          if use_ohem cfg then
            (let num_images = length img_metas;
                 all_cls_scores = cat_levels num_images (map per_image cls_scores);
                 all_labels = cat_levels num_images (labels_list tg);
                 all_label_weights = cat_levels num_images (label_weights_list tg);
                 all_bbox_preds = cat_levels num_images (map per_image bbox_preds);
                 all_bbox_targets = cat_levels num_images (bbox_targets_list tg);
                 all_bbox_weights = cat_levels num_images (bbox_weights_list tg);
                 all_anchors = map concat (take num_images anchor_list)
             in
             if \<not> all_finite cls_scores then Inl (AssertionError cls_scores_msg)
             else if \<not> all_finite bbox_preds then Inl (AssertionError bbox_preds_msg)
             else
               then_do
                 (multi_apply
                    (\<lambda>(cls_score, bbox_pred, anchors, labels, label_weights, bbox_targets,
                        bbox_weights).
                       then_do (loss_single_OHEM cfg ext cls_score bbox_pred anchors labels
                                  label_weights bbox_targets bbox_weights
                                  (real (num_total_pos tg)))
                         (\<lambda>(c, b). Inr [c, b]))
                    (zip all_cls_scores (zip all_bbox_preds (zip all_anchors (zip all_labels
                      (zip all_label_weights (zip all_bbox_targets all_bbox_weights)))))))
                 (\<lambda>res. case res of
                    [losses_cls, losses_bbox] \<Rightarrow>
                      Inr (Some ((losses_cls, losses_bbox), sampling_results))
                  | _ \<Rightarrow> Inl ValueError))
          else
            (let num_total_samples =
                   (if sampling cfg then num_total_pos tg + num_total_neg tg
                    else num_total_pos tg);
                 num_level_anchors = map length (anchor_list ! 0);
                 concat_anchor_list = map concat anchor_list
             in
             then_do (images_to_levels concat_anchor_list num_level_anchors)
               (\<lambda>all_anchor_list.
             then_do
               (multi_apply
                  (\<lambda>(cls_score, bbox_pred, anchors, labels, label_weights, bbox_targets,
                      bbox_weights).
                     (let (c, b) = loss_single ext (per_image cls_score) (per_image bbox_pred)
                                     anchors labels label_weights bbox_targets bbox_weights
                                     (real num_total_samples)
                      in Inr [c, b]))
                  (zip cls_scores (zip bbox_preds (zip all_anchor_list (zip (labels_list tg)
                    (zip (label_weights_list tg)
                      (zip (bbox_targets_list tg) (bbox_weights_list tg))))))))
               (\<lambda>res. case res of
                  [losses_cls, losses_bbox] \<Rightarrow>
                    Inr (Some ((losses_cls, losses_bbox), sampling_results))
                | _ \<Rightarrow> Inl ValueError)))))))"

section \<open>YOLACTHead.forward_single\<close>

text \<open>
  \<^verbatim>\<open>t.tanh()\<close> on an entry: NaN stays NaN, the infinities go to 1 and -1, and a
  finite value goes to its hyperbolic tangent (the rounding to single precision, which
  keeps the result between -1 and 1, is not modelled).
\<close>

fun tanh32 :: "float32 \<Rightarrow> float32" where
  "tanh32 (Finite r) = Finite (tanh r)"
| "tanh32 PosInf = Finite 1"
| "tanh32 NegInf = Finite (- 1)"
| "tanh32 NaN = NaN"

text \<open>An entry that is a number of the closed interval from -1 to 1.\<close>

fun in_unit_interval :: "float32 \<Rightarrow> bool" where
  "in_unit_interval (Finite r) = (- 1 \<le> r \<and> r \<le> 1)"
| "in_unit_interval PosInf = False"
| "in_unit_interval NegInf = False"
| "in_unit_interval NaN = False"

text \<open>
  The convolutions are learned layers, taken as functions on the entries of a feature
  map. The three results are the class scores, the box deltas and the mask
  coefficients.
\<close>

definition forward_single ::
  "(float32 list \<Rightarrow> float32 list) list \<Rightarrow> (float32 list \<Rightarrow> float32 list) \<Rightarrow>
   (float32 list \<Rightarrow> float32 list) \<Rightarrow> (float32 list \<Rightarrow> float32 list) \<Rightarrow> float32 list \<Rightarrow>
   float32 list \<times> float32 list \<times> float32 list" where
  "forward_single head_convs conv_cls conv_reg conv_coeff x =
   (let x' = fold (\<lambda>head_conv y. head_conv y) head_convs x;
        cls_score = conv_cls x';
        bbox_pred = conv_reg x';
        coeff_pred = map tanh32 (conv_coeff x')
    in (cls_score, bbox_pred, coeff_pred))"

section \<open>YOLACTSegmHead.get_targets\<close>

text \<open>Python indexing of a list: a negative index counts from the end.\<close>

definition py_index :: "nat \<Rightarrow> int \<Rightarrow> error + nat" where
  "py_index n i =
     (let j = (if i < 0 then int n + i else i)
      in if 0 \<le> j \<and> j < int n then Inr (nat j) else Inl IndexError)"

text \<open>\<^verbatim>\<open>torch.max(a, b)\<close> of two maps of one shape, entry by entry.\<close>

definition elementwise_max :: "mask \<Rightarrow> mask \<Rightarrow> mask" where
  "elementwise_max a b = map (\<lambda>(ra, rb). map (\<lambda>(u, v). max u v) (zip ra rb)) (zip a b)"

text \<open>\<^verbatim>\<open>t.gt(0.5).float()\<close>.\<close>

definition threshold :: "mask \<Rightarrow> mask" where
  "threshold m = map (map (\<lambda>v. if v > 0.5 then 1 else 0)) m"

text \<open>The loop over the instances: instance \<open>obj_idx\<close> is merged into the channel
  \<^verbatim>\<open>gt_labels[obj_idx] - 1\<close>.\<close>

fun segm_merge :: "mask list \<Rightarrow> int list \<Rightarrow> mask list \<Rightarrow> nat list \<Rightarrow> error + mask list" where
  "segm_merge downsampled_masks gt_labels segm_targets [] = Inr segm_targets"
| "segm_merge downsampled_masks gt_labels segm_targets (obj_idx # rest) =
     (if obj_idx \<ge> length gt_labels then Inl IndexError
      else then_do (py_index (length segm_targets) (gt_labels ! obj_idx - 1)) (\<lambda>ch.
             segm_merge downsampled_masks gt_labels
               (segm_targets[ch := elementwise_max (segm_targets ! ch)
                                     (downsampled_masks ! obj_idx)])
               rest))"

text \<open>
  \<open>interpolate\<close> is \<^verbatim>\<open>F.interpolate\<close> (bilinear, \<^verbatim>\<open>align_corners=False\<close>) to the
  given size. The result \<open>Inr None\<close> is the Python \<^verbatim>\<open>None\<close>.
\<close>

definition segm_get_targets ::
  "(mask list \<Rightarrow> nat \<times> nat \<Rightarrow> mask list) \<Rightarrow> mask list \<Rightarrow> mask list \<Rightarrow> int list \<Rightarrow>
   error + mask list option" where
  "segm_get_targets interpolate segm_pred gt_masks gt_labels =
   (if length gt_masks = 0 then Inr None
    else
     (let mask_h = (case segm_pred of [] \<Rightarrow> 0 | ch # _ \<Rightarrow> length ch);
          mask_w = (case segm_pred of [] \<Rightarrow> 0 | ch # _ \<Rightarrow>
                      (case ch of [] \<Rightarrow> 0 | row # _ \<Rightarrow> length row));
          downsampled_masks = map threshold (interpolate gt_masks (mask_h, mask_w));
          segm_targets = map (map (map (\<lambda>_. 0))) segm_pred
      in then_do (segm_merge downsampled_masks gt_labels segm_targets
                    [0..<length downsampled_masks])
           (\<lambda>t. Inr (Some t))))"

section \<open>YOLACTProtonet: cropping\<close>

text \<open>\<^verbatim>\<open>t.long()\<close> rounds towards zero. The value is the exact truncation of the real
  number: the rounding of the product to single precision before the cast and the
  wrap-around of a 64-bit integer are outside this model. \<open>crop\<close> never casts.\<close>

definition to_long :: "real \<Rightarrow> real" where
  "to_long x = (if 0 \<le> x then of_int \<lfloor>x\<rfloor> else of_int \<lceil>x\<rceil>)"

text \<open>
  \<^verbatim>\<open>sanitize_coordinates\<close>, entry by entry on the two coordinate tensors. The second
  assignment reads the \<open>x1\<close> that the first one has just replaced.
\<close>

definition sanitize_coordinates ::
  "real list \<Rightarrow> real list \<Rightarrow> nat \<Rightarrow> real \<Rightarrow> bool \<Rightarrow> real list \<times> real list" where
  "sanitize_coordinates x1 x2 img_size padding cast =
   (let x1a = map (\<lambda>v. v * real img_size) x1;
        x2a = map (\<lambda>v. v * real img_size) x2;
        x1b = (if cast then map to_long x1a else x1a);
        x2b = (if cast then map to_long x2a else x2a);
        x1c = map (\<lambda>(u, v). min u v) (zip x1b x2b);
        x2c = map (\<lambda>(u, v). max u v) (zip x1c x2b);
        x1d = map (\<lambda>v. max (v - padding) 0) x1c;
        x2d = map (\<lambda>v. min (v + padding) (real img_size)) x2c
    in (x1d, x2d))"

text \<open>
  \<^verbatim>\<open>crop\<close>: \<open>masks\<close> has shape \<open>(h, w, n)\<close>, \<open>boxes\<close> has one row of relative
  coordinates per instance. Cell \<open>(i, j)\<close> of instance \<open>k\<close> is kept when column
  \<open>j\<close> lies in \<open>[x1, x2)\<close> and row \<open>i\<close> in \<open>[y1, y2)\<close> of the sanitized box \<open>k\<close>.
  The comparison and the product broadcast along the instance axis: a single box is
  used for every mask and a single mask for every box; other unequal counts raise.
\<close>

definition crop :: "real list list list \<Rightarrow> real list list \<Rightarrow> real \<Rightarrow> error + real list list list" where
  "crop masks boxes padding =
   (let h = length masks;
        w = (case masks of [] \<Rightarrow> 0 | row # _ \<Rightarrow> length row);
        nb = length boxes;
        (x1, x2) = sanitize_coordinates (map (\<lambda>b. b ! 0) boxes) (map (\<lambda>b. b ! 2) boxes) w
                     padding False;
        (y1, y2) = sanitize_coordinates (map (\<lambda>b. b ! 1) boxes) (map (\<lambda>b. b ! 3) boxes) h
                     padding False
    in if \<exists>row \<in> set masks. \<exists>cell \<in> set row.
            length cell \<noteq> nb \<and> nb \<noteq> 1 \<and> length cell \<noteq> 1
       then Inl RuntimeError
       else Inr (map (\<lambda>(i, row).
                   map (\<lambda>(j, cell).
                     map (\<lambda>k.
                        (let v = cell ! (if length cell = 1 then 0 else k);
                             kb = (if nb = 1 then 0 else k)
                         in v * (if real j \<ge> x1 ! kb \<and> real j < x2 ! kb \<and>
                                    real i \<ge> y1 ! kb \<and> real i < y2 ! kb then 1 else 0)))
                       [0..<(if length cell = 1 then nb else length cell)])
                    (zip [0..<length row] row))
                  (zip [0..<h] masks)))"

section \<open>YOLACTProtonet.forward\<close>

text \<open>
  The box tensors live in a store, so that a name bound to a tensor of the caller and a
  fresh copy can be told apart: \<open>cells\<close> maps an address to the rows of the tensor
  stored there, \<open>next_addr\<close> is the first address not in use.
\<close>

record store =
  cells :: "nat \<Rightarrow> real list list"
  next_addr :: nat

text \<open>\<^verbatim>\<open>t.clone()\<close>: a new tensor with the same rows.\<close>

definition clone :: "store \<Rightarrow> real list list \<Rightarrow> nat \<times> store" where
  "clone s t = (next_addr s, s\<lparr>cells := (cells s)(next_addr s := t),
                               next_addr := Suc (next_addr s)\<rparr>)"

text \<open>The four in-place divisions \<^verbatim>\<open>t[:, 0] /= w\<close>, \<^verbatim>\<open>t[:, 1] /= h\<close>,
  \<^verbatim>\<open>t[:, 2] /= w\<close>, \<^verbatim>\<open>t[:, 3] /= h\<close> on the tensor at an address.\<close>

definition divide_in_place :: "store \<Rightarrow> nat \<Rightarrow> nat \<times> nat \<Rightarrow> error + store" where
  "divide_in_place s a hw =
   (let (h, w) = hw; t = cells s a in
    if \<exists>row \<in> set t. length row < 4 then Inl IndexError
    else Inr (s\<lparr>cells := (cells s)
                 (a := map (\<lambda>row. row[0 := row ! 0 / real w, 1 := row ! 1 / real h,
                                       2 := row ! 2 / real w, 3 := row ! 3 / real h]) t)\<rparr>))"

definition sigmoid :: "real \<Rightarrow> real" where
  "sigmoid v = 1 / (1 + exp (- v))"

text \<open>\<^verbatim>\<open>cur_prototypes @ cur_coeff_pred.t()\<close>: shape \<open>(H, W, P)\<close> times the transpose of
  \<open>(n, P)\<close>.\<close>

definition matmul_t :: "real list list list \<Rightarrow> real list list \<Rightarrow> error + real list list list" where
  "matmul_t protos coeffs =
   (if \<exists>row \<in> set protos. \<exists>cell \<in> set row. \<exists>c \<in> set coeffs. length cell \<noteq> length c
    then Inl RuntimeError
    else Inr (map (map (\<lambda>cell. map (\<lambda>c. sum_list (map (\<lambda>(u, v). u * v) (zip cell c)))
                                  coeffs)) protos))"

text \<open>\<^verbatim>\<open>permute(2, 0, 1)\<close> of a tensor of shape \<open>(H, W, n)\<close>.\<close>

definition permute_201 :: "nat \<Rightarrow> real list list list \<Rightarrow> real list list list" where
  "permute_201 n m = map (\<lambda>k. map (map (\<lambda>cell. cell ! k)) m) [0..<n]"

text \<open>
  The coefficients handed to \<^verbatim>\<open>forward\<close>: per pyramid level in training (level, image,
  anchor, prototype), per image in inference (image, detection, prototype).
\<close>

datatype coeff_input =
    PerLevel "real list list list list"
  | PerImage "real list list list"

text \<open>The body of the loop over the images. \<open>cur_bboxes\<close> is the address of the box
  tensor that the caller passed for the image.\<close>

definition forward_image ::
  "bool \<Rightarrow> store \<Rightarrow> real list list list \<Rightarrow> real list list \<Rightarrow> nat \<Rightarrow> img_meta \<Rightarrow>
   sampling_result option \<Rightarrow> error + (store \<times> real list list list)" where
  "forward_image training s cur_prototypes cur_coeff_pred0 cur_bboxes cur_img_meta
     cur_sampling_results =
   then_do
     (if \<not> training then Inr (s, cur_bboxes, cur_coeff_pred0)
      else (case cur_sampling_results of
              None \<Rightarrow> Inl TypeError
            | Some sr \<Rightarrow>
                then_do (index_select (cells s cur_bboxes) (pos_assigned_gt_inds sr))
                  (\<lambda>selected.
                     (let (a, s') = clone s selected in
                      then_do (index_select cur_coeff_pred0 (pos_inds sr))
                        (\<lambda>coeff. Inr (s', a, coeff))))))
     (\<lambda>(s1, bboxes_for_cropping, cur_coeff_pred).
        then_do (matmul_t cur_prototypes cur_coeff_pred) (\<lambda>lincomb.
          (let mask_pred = map (map (map sigmoid)) lincomb in
           then_do (divide_in_place s1 bboxes_for_cropping (img_shape cur_img_meta))
             (\<lambda>s2.
           then_do (crop mask_pred (cells s2 bboxes_for_cropping) 1) (\<lambda>cropped.
             Inr (s2, permute_201 (length cur_coeff_pred) cropped))))))"

fun forward_loop ::
  "bool \<Rightarrow> real list list list list \<Rightarrow> real list list list \<Rightarrow> nat list \<Rightarrow> img_meta list \<Rightarrow>
   sampling_result list option \<Rightarrow> nat list \<Rightarrow> store \<Rightarrow>
   error + (store \<times> real list list list list)" where
  "forward_loop training prototypes coeff_pred bboxes metas sampling_results [] s =
     Inr (s, [])"
| "forward_loop training prototypes coeff_pred bboxes metas sampling_results (idx # rest) s =
     (if idx \<ge> length prototypes \<or> idx \<ge> length coeff_pred \<or> idx \<ge> length bboxes \<or>
         idx \<ge> length metas
      then Inl IndexError
      else
       then_do
         (case sampling_results of
            None \<Rightarrow> Inr None
          | Some srs \<Rightarrow>
              if \<not> training then Inr None
              else if idx \<ge> length srs then Inl IndexError
              else Inr (Some (srs ! idx)))
         (\<lambda>cur_sampling_results.
       then_do (forward_image training s (prototypes ! idx) (coeff_pred ! idx) (bboxes ! idx)
                  (metas ! idx) cur_sampling_results) (\<lambda>(s', mask_pred).
       then_do (forward_loop training prototypes coeff_pred bboxes metas sampling_results
                  rest s') (\<lambda>(s'', mask_pred_list).
       Inr (s'', mask_pred # mask_pred_list)))))"

text \<open>
  \<^verbatim>\<open>YOLACTProtonet.forward\<close>. \<open>protonet\<close> is the stack of layers together with the
  permutation to shape \<open>(N, H, W, P)\<close>; \<open>bboxes\<close> holds, for each image, the address of
  the box tensor the caller passed. The result is the store after the call and the list
  of mask predictions.
\<close>

definition forward ::
  "bool \<Rightarrow> (real list list list list \<Rightarrow> real list list list list) \<Rightarrow> store \<Rightarrow>
   real list list list list \<Rightarrow> coeff_input \<Rightarrow> nat list \<Rightarrow> img_meta list \<Rightarrow>
   sampling_result list option \<Rightarrow> error + (store \<times> real list list list list)" where
  "forward training protonet s x coeff_pred bboxes metas sampling_results =
   (let prototypes = protonet x;
        num_imgs = length x
    in then_do
         (if training then
            (case coeff_pred of
               PerLevel levels \<Rightarrow> Inr (cat_levels num_imgs levels)
             | PerImage t \<Rightarrow> Inl RuntimeError)
          else
            (case coeff_pred of
               PerImage t \<Rightarrow> Inr t
             | PerLevel levels \<Rightarrow> Inl RuntimeError))
         (\<lambda>coeffs. forward_loop training prototypes coeffs bboxes metas sampling_results
                      [0..<num_imgs] s))"

section \<open>YOLACTProtonet.loss\<close>












section \<open>Concrete components for running the model\<close>

text \<open>
  Modelled from the spec: the sampler of this design is a pass-through
  ("pseudo-sample"): every assigned-positive anchor is positive, every
  assigned-background anchor is negative, and an ignored anchor is in neither set.
\<close>

definition pseudo_sample :: "assignment list \<Rightarrow> bbox list \<Rightarrow> bbox list \<Rightarrow> sampling_result" where
  "pseudo_sample assign_result anchors gt_bboxes =
   (let pos = filter (\<lambda>i. case assign_result ! i of Matched g \<Rightarrow> True | _ \<Rightarrow> False)
                [0..<length assign_result];
        neg = filter (\<lambda>i. assign_result ! i = BACKGROUND) [0..<length assign_result];
        gt = map (\<lambda>i. case assign_result ! i of Matched g \<Rightarrow> g | _ \<Rightarrow> 0) pos
    in \<lparr>pos_inds = pos, neg_inds = neg, pos_assigned_gt_inds = gt,
        pos_bboxes = map (\<lambda>i. anchors ! i) pos,
        pos_gt_bboxes = map (\<lambda>g. gt_bboxes ! g) gt\<rparr>)"

text \<open>
  A small head for concrete runs: two object classes (background label 2) and one
  pyramid level with the anchors given by \<open>anchors\<close>. The allowed border is -1, the
  setting for which \<^verbatim>\<open>anchor_inside_flags\<close> of \<^verbatim>\<open>mmdet.core\<close> does not look at the
  image and an anchor is inside the valid region exactly when its validity flag is
  set. The assigner stands for a threshold assigner: an image without ground truth
  has only background anchors, and otherwise the anchors get the assignments
  \<open>assigned\<close> in turn. \<open>per_anchor\<close> is the classification loss of each anchor.
\<close>

definition demo_cfg :: "bool \<Rightarrow> head_cfg" where
  "demo_cfg ohem =
     \<lparr>background_label = 2, neg_pos_ratio = 1, reg_decoded_bbox = False, pos_weight = 1,
      allowed_border = - 1, iou_assign = 1, sampling = False, use_ohem = ohem,
      num_levels = 1\<rparr>"

definition demo_collab ::
  "bbox list \<Rightarrow> bool list \<Rightarrow> assignment list \<Rightarrow> real list \<Rightarrow> collab" where
  "demo_collab anchors flags assigned per_anchor =
     \<lparr>anchor_inside_flags = (\<lambda>flat_anchors valid_flags shape border. valid_flags),
      assign_iou = (\<lambda>ancs gt_bboxes gt_masks ign gt_labels.
                      if gt_bboxes = [] then replicate (length ancs) BACKGROUND
                      else take (length ancs) assigned),
      assign_atss = (\<lambda>ancs nla gt_bboxes ign gt_labels gt_masks.
                       if gt_bboxes = [] then replicate (length ancs) BACKGROUND
                       else take (length ancs) assigned),
      sample = pseudo_sample,
      encode = (\<lambda>boxes gt_boxes. gt_boxes),
      decode = (\<lambda>ancs deltas. deltas),
      loss_cls = (\<lambda>cls_score labels label_weights. per_anchor),
      loss_bbox = (\<lambda>bbox_pred bbox_targets bbox_weights avg_factor. 0),
      get_anchors = (\<lambda>featmap_sizes metas.
                       (replicate (length metas) [anchors], replicate (length metas) [flags])),
      loss_single = (\<lambda>cls_score bbox_pred ancs labels label_weights bbox_targets
                       bbox_weights num_total_samples. (0, 0))\<rparr>"

text \<open>A store with one box tensor, at address 0: one detection with its score.\<close>

definition demo_store :: store where
  "demo_store = \<lparr>cells = (\<lambda>a. [])(0 := [[10, 20, 30, 40, 9 / 10]]), next_addr = 1\<rparr>"



text \<open>A row of seven fields, as \<open>get_targets_single\<close> returns it for an image with a
  valid anchor.\<close>

definition full_row :: "pyval list \<Rightarrow> bool" where
  "full_row row = (\<exists>labels lw bt bw sr.
     row = [Labels labels, Weights lw, Boxes bt, Boxes bw, Inds (pos_inds sr),
            Inds (neg_inds sr), Sampling sr])"

text \<open>
  One image with a single anchor that the assigner gives to the background: its
  sampling result and the targets of that batch. Then prediction tensors of one level,
  one image and one anchor: class scores with a NaN, finite class scores, finite box
  deltas.
\<close>

definition background_sampling :: sampling_result where
  "background_sampling = \<lparr>pos_inds = [], neg_inds = [0], pos_assigned_gt_inds = [],
     pos_bboxes = [], pos_gt_bboxes = []\<rparr>"

definition background_targets :: targets where
  "background_targets =
     \<lparr>labels_list = [[[2]]], label_weights_list = [[[1]]],
      bbox_targets_list = [[[(0, 0, 0, 0)]]], bbox_weights_list = [[[(0, 0, 0, 0)]]],
      num_total_pos = 1, num_total_neg = 1,
      sampling_results_list = Some [background_sampling]\<rparr>"

definition nan_scores :: "level_tensor list" where
  "nan_scores = [\<lparr>featmap_size = (1, 1), per_image = [[[NaN, Finite 0, Finite 0]]]\<rparr>]"

definition finite_scores :: "level_tensor list" where
  "finite_scores = [\<lparr>featmap_size = (1, 1), per_image = [[[Finite 1, Finite 0, Finite 0]]]\<rparr>]"

definition finite_deltas :: "level_tensor list" where
  "finite_deltas =
     [\<lparr>featmap_size = (1, 1), per_image = [[[Finite 0, Finite 0, Finite 0, Finite 2]]]\<rparr>]"




text \<open>
  A batch of two images for the loss with hard-negative mining, over three anchors
  that are all valid. The first image has one ground-truth box, which is the second
  anchor; the second image has no ground truth. The classification loss of the three
  anchors is 2, 6 and 4, and the box loss is 3 over its \<^verbatim>\<open>avg_factor\<close>. The
  prediction tensors have one level.
\<close>

definition three_anchors :: "bbox list" where
  "three_anchors = [(0, 0, 4, 4), (4, 4, 8, 8), (8, 8, 12, 12)]"

definition ohem_collab :: collab where
  "ohem_collab =
     (demo_collab three_anchors [True, True, True] [BACKGROUND, Matched 0, BACKGROUND]
        [2, 6, 4])
     \<lparr>loss_bbox := (\<lambda>bbox_pred bbox_targets bbox_weights avg_factor. 3 / avg_factor)\<rparr>"

definition ohem_scores :: "level_tensor list" where
  "ohem_scores =
     [\<lparr>featmap_size = (1, 3),
       per_image = [[[Finite 0, Finite 1, Finite 0], [Finite 0, Finite 2, Finite 0],
                     [Finite 0, Finite 0, Finite 1]],
                    [[Finite 1, Finite 0, Finite 0], [Finite 0, Finite 1, Finite 0],
                     [Finite 0, Finite 0, Finite 3]]]\<rparr>]"

definition ohem_deltas :: "level_tensor list" where
  "ohem_deltas =
     [\<lparr>featmap_size = (1, 3),
       per_image = [[[Finite 0, Finite 0, Finite 0, Finite 0],
                     [Finite 1, Finite 0, Finite 0, Finite 0],
                     [Finite 0, Finite 0, Finite 0, Finite 0]],
                    [[Finite 0, Finite 0, Finite 0, Finite 0],
                     [Finite 0, Finite 0, Finite 0, Finite 0],
                     [Finite 0, Finite 2, Finite 0, Finite 0]]]\<rparr>]"

definition ohem_sampling :: "sampling_result list" where
  "ohem_sampling =
     [\<lparr>pos_inds = [1], neg_inds = [0, 2], pos_assigned_gt_inds = [0],
       pos_bboxes = [(4, 4, 8, 8)], pos_gt_bboxes = [(4, 4, 8, 8)]\<rparr>,
      \<lparr>pos_inds = [], neg_inds = [0, 1, 2], pos_assigned_gt_inds = [],
       pos_bboxes = [], pos_gt_bboxes = []\<rparr>]"

definition ohem_targets :: targets where
  "ohem_targets =
     \<lparr>labels_list = [[[2, 1, 2], [2, 2, 2]]],
      label_weights_list = [[[1, 1, 1], [1, 1, 1]]],
      bbox_targets_list = [[[(0, 0, 0, 0), (4, 4, 8, 8), (0, 0, 0, 0)],
                            [(0, 0, 0, 0), (0, 0, 0, 0), (0, 0, 0, 0)]]],
      bbox_weights_list = [[[(0, 0, 0, 0), (1, 1, 1, 1), (0, 0, 0, 0)],
                            [(0, 0, 0, 0), (0, 0, 0, 0), (0, 0, 0, 0)]]],
      num_total_pos = 2, num_total_neg = 5,
      sampling_results_list = Some ohem_sampling\<rparr>"

section \<open>Facts about the tensor primitives\<close>

lemma nonzero_bound: "i \<in> set (nonzero bs) \<Longrightarrow> i < length bs"
  by (simp add: nonzero_def)

lemma index_select_ok:
  "\<forall>i \<in> set inds. i < length xs \<Longrightarrow> index_select xs inds = Inr (map (\<lambda>i. xs ! i) inds)"
  by (simp add: index_select_def)

lemma topk_ok:
  "0 \<le> k \<Longrightarrow> k \<le> int (length xs) \<Longrightarrow> topk xs k = Inr (take (nat k) (rev (sort xs)))"
  by (simp add: topk_def)

lemma topk_split:
  fixes xs :: "real list"
  shows "mset (take n (rev (sort xs))) + mset (drop n (rev (sort xs))) = mset xs"
proof -
  have "mset (take n (rev (sort xs))) + mset (drop n (rev (sort xs)))
        = mset (take n (rev (sort xs)) @ drop n (rev (sort xs)))"
    by (simp only: mset_append)
  also have "\<dots> = mset xs" by simp
  finally show ?thesis .
qed

lemma topk_dominates:
  fixes xs :: "real list"
  assumes "a \<in> set (take n (rev (sort xs)))" and "b \<in> set (drop n (rev (sort xs)))"
  shows "b \<le> a"
proof -
  have "sorted_wrt (\<lambda>x y. y \<le> x) (rev (sort xs))"
    by (simp add: sorted_wrt_rev)
  then have "sorted_wrt (\<lambda>x y. y \<le> x) (take n (rev (sort xs)) @ drop n (rev (sort xs)))"
    by simp
  then show ?thesis
    using assms unfolding sorted_wrt_append by blast
qed

lemma ohem_inds_bound:
  "i \<in> set (ohem_pos_inds cfg labels) \<Longrightarrow> i < length labels"
  "i \<in> set (ohem_neg_inds cfg labels) \<Longrightarrow> i < length labels"
  by (auto simp: ohem_pos_inds_def ohem_neg_inds_def dest: nonzero_bound)

section \<open>The concrete components\<close>

lemma demo_cfg_simps:
  "background_label (demo_cfg b) = 2" "neg_pos_ratio (demo_cfg b) = 1"
  "reg_decoded_bbox (demo_cfg b) = False" "pos_weight (demo_cfg b) = 1"
  "iou_assign (demo_cfg b) = 1" "sampling (demo_cfg b) = False"
  "use_ohem (demo_cfg b) = b" "num_levels (demo_cfg b) = 1"
  by (simp_all add: demo_cfg_def)

lemma demo_collab_simps:
  "anchor_inside_flags (demo_collab a f asg pa) fa vf sh bd = vf"
  "assign_iou (demo_collab a f asg pa) ancs gb gm ign gl =
     (if gb = [] then replicate (length ancs) BACKGROUND else take (length ancs) asg)"
  "sample (demo_collab a f asg pa) = pseudo_sample"
  "encode (demo_collab a f asg pa) bs gs = gs"
  "decode (demo_collab a f asg pa) ancs ds = ds"
  "loss_cls (demo_collab a f asg pa) sc ls lw = pa"
  "loss_bbox (demo_collab a f asg pa) bp bt bw n = 0"
  "get_anchors (demo_collab a f asg pa) sizes metas =
     (replicate (length metas) [a], replicate (length metas) [f])"
  "loss_single (demo_collab a f asg pa) lc lb la ll lw' lt lbw n = (0, 0)"
  by (simp_all add: demo_collab_def)

section \<open>Hard-negative mining in the classification loss\<close>

text \<open>
  The indices that \<^verbatim>\<open>nonzero\<close> finds for a test on the labels select, from a tensor
  with one entry per label, the entries whose label passes the test, in order; there
  are as many as labels that pass.
\<close>

lemma nonzero_snoc:
  "nonzero (bs @ [b]) = nonzero bs @ (if b then [length bs] else [])"
  by (auto simp: nonzero_def nth_append intro!: filter_cong)

lemma nonzero_select:
  "map (\<lambda>i. map snd zs ! i) (nonzero (map (\<lambda>z. p (fst z)) zs)) =
   map snd (filter (\<lambda>z. p (fst z)) zs)"
proof (induction zs rule: rev_induct)
  case Nil
  show ?case by (simp add: nonzero_def)
next
  case (snoc z zs)
  have b: "\<forall>i \<in> set (nonzero (map (\<lambda>z. p (fst z)) zs)). i < length zs"
    using nonzero_bound [of _ "map (\<lambda>z. p (fst z)) zs"] by auto
  have "map (\<lambda>i. map snd (zs @ [z]) ! i) (nonzero (map (\<lambda>z. p (fst z)) zs)) =
        map (\<lambda>i. map snd zs ! i) (nonzero (map (\<lambda>z. p (fst z)) zs))"
    using b by (auto simp: nth_append)
  then show ?case
    using snoc.IH by (simp add: nonzero_snoc nth_append)
qed

lemma nonzero_select_zip:
  assumes "length L = length labels"
  shows "map (\<lambda>i. L ! i) (nonzero (map p labels)) =
         map snd (filter (\<lambda>z. p (fst z)) (zip labels L))"
proof -
  have "map (\<lambda>i. map snd (zip labels L) ! i)
          (nonzero (map (\<lambda>z. p (fst z)) (zip labels L))) =
        map snd (filter (\<lambda>z. p (fst z)) (zip labels L))"
    by (rule nonzero_select)
  moreover have "map snd (zip labels L) = L" using assms by simp
  moreover have "map (\<lambda>z. p (fst z)) (zip labels L) = map p labels"
  proof -
    have "map (\<lambda>z. p (fst z)) (zip labels L) = map p (map fst (zip labels L))"
      by (simp add: comp_def)
    also have "map fst (zip labels L) = labels" using assms by simp
    finally show ?thesis .
  qed
  ultimately show ?thesis by simp
qed

lemma nonzero_length: "length (nonzero (map p xs)) = length (filter p xs)"
proof (induction xs rule: rev_induct)
  case Nil
  show ?case by (simp add: nonzero_def)
next
  case (snoc x xs)
  then show ?case by (simp add: nonzero_snoc)
qed


text \<open>The loss in terms of the indices it computes.\<close>

lemma ohem_budget_by_index:
  assumes r: "0 \<le> neg_pos_ratio cfg"
    and len: "length (loss_cls ext cls_score labels label_weights) = length labels"
  shows "\<exists>sel rest.
    loss_single_OHEM cfg ext cls_score bbox_pred anchors labels label_weights bbox_targets
      bbox_weights nts =
      Inr ((sum_list (map (\<lambda>i. loss_cls ext cls_score labels label_weights ! i)
                       (ohem_pos_inds cfg labels)) + sum_list sel) / nts,
           loss_bbox ext (if reg_decoded_bbox cfg then decode ext anchors bbox_pred
                          else bbox_pred) bbox_targets bbox_weights nts) \<and>
    mset sel + mset rest =
      mset (map (\<lambda>i. loss_cls ext cls_score labels label_weights ! i)
              (ohem_neg_inds cfg labels)) \<and>
    (\<forall>a \<in> set sel. \<forall>b \<in> set rest. b \<le> a) \<and>
    int (length sel) =
      (if length (ohem_pos_inds cfg labels) = 0 then int (length (ohem_neg_inds cfg labels))
       else min (neg_pos_ratio cfg * int (length (ohem_pos_inds cfg labels)))
                (int (length (ohem_neg_inds cfg labels))))"
proof -
  define L where "L = loss_cls ext cls_score labels label_weights"
  define pos where "pos = ohem_pos_inds cfg labels"
  define neg where "neg = ohem_neg_inds cfg labels"
  define k where "k = (if length pos = 0 then int (length neg)
       else min (neg_pos_ratio cfg * int (length pos)) (int (length neg)))"
  define negL where "negL = map (\<lambda>i. L ! i) neg"
  define sel where "sel = take (nat k) (rev (sort negL))"
  define rest where "rest = drop (nat k) (rev (sort negL))"
  have k0: "0 \<le> k" using r by (simp add: k_def)
  have kn: "k \<le> int (length negL)" by (simp add: k_def negL_def)
  have s1: "index_select L neg = Inr negL"
    unfolding negL_def neg_def
    by (rule index_select_ok) (simp add: L_def len ohem_inds_bound)
  have s2: "index_select L pos = Inr (map (\<lambda>i. L ! i) pos)"
    unfolding pos_def
    by (rule index_select_ok) (simp add: L_def len ohem_inds_bound)
  have s3: "topk negL k = Inr sel"
    unfolding sel_def using k0 kn by (rule topk_ok)
  have res: "loss_single_OHEM cfg ext cls_score bbox_pred anchors labels label_weights
      bbox_targets bbox_weights nts =
      Inr ((sum_list (map (\<lambda>i. L ! i) pos) + sum_list sel) / nts,
           loss_bbox ext (if reg_decoded_bbox cfg then decode ext anchors bbox_pred
                          else bbox_pred) bbox_targets bbox_weights nts)"
    unfolding loss_single_OHEM_def Let_def
    unfolding L_def [symmetric] pos_def [symmetric] neg_def [symmetric]
    using s3 by (auto simp: s1 s2 then_do_def k_def min_def split: if_splits)
  have m: "mset sel + mset rest = mset negL"
    unfolding sel_def rest_def by (rule topk_split)
  have d: "\<forall>a \<in> set sel. \<forall>b \<in> set rest. b \<le> a"
    unfolding sel_def rest_def using topk_dominates by blast
  have l: "int (length sel) = k"
    using k0 kn by (simp add: sel_def)
  show ?thesis
    using res m d l unfolding L_def pos_def neg_def k_def negL_def by blast
qed


text \<open>
  Claim C1. Take an image given to \<open>loss_single_OHEM\<close>, with a non-negative
  \<open>neg_pos_ratio\<close> and one classification loss per anchor. \<open>P\<close> is the number of
  labels in \<open>[0, background_label)\<close> and \<open>N\<close> the number of labels equal to
  \<open>background_label\<close>. The loss is computed without an exception; its classification
  part is the sum of the losses of the positive anchors and of a selection \<open>sel\<close> of
  the losses of the negative anchors, divided by \<open>num_total_samples\<close>. The selection
  has \<open>N\<close> entries when \<open>P = 0\<close> and \<open>min (neg_pos_ratio * P) N\<close> entries
  otherwise; together with the losses it leaves out (\<open>rest\<close>) it makes up the losses
  of the negative anchors, and every loss left out is at most every selected one: the
  contributing negatives are those of highest loss.
\<close>

theorem ohem_negative_budget:
  assumes r: "0 \<le> neg_pos_ratio cfg"
    and len: "length (loss_cls ext cls_score labels label_weights) = length labels"
  shows "\<exists>sel rest.
    loss_single_OHEM cfg ext cls_score bbox_pred anchors labels label_weights bbox_targets
      bbox_weights nts =
      Inr ((sum_list (map snd (filter (\<lambda>z. 0 \<le> fst z \<and> fst z < background_label cfg)
                                 (zip labels (loss_cls ext cls_score labels label_weights))))
            + sum_list sel) / nts,
           loss_bbox ext (if reg_decoded_bbox cfg then decode ext anchors bbox_pred
                          else bbox_pred) bbox_targets bbox_weights nts) \<and>
    mset sel + mset rest =
      mset (map snd (filter (\<lambda>z. fst z = background_label cfg)
                       (zip labels (loss_cls ext cls_score labels label_weights)))) \<and>
    (\<forall>a \<in> set sel. \<forall>b \<in> set rest. b \<le> a) \<and>
    int (length sel) =
      (if length (filter (\<lambda>l. 0 \<le> l \<and> l < background_label cfg) labels) = 0
       then int (length (filter (\<lambda>l. l = background_label cfg) labels))
       else min (neg_pos_ratio cfg *
                   int (length (filter (\<lambda>l. 0 \<le> l \<and> l < background_label cfg) labels)))
                (int (length (filter (\<lambda>l. l = background_label cfg) labels))))"
proof -
  have p: "map (\<lambda>i. loss_cls ext cls_score labels label_weights ! i)
             (ohem_pos_inds cfg labels) =
           map snd (filter (\<lambda>z. 0 \<le> fst z \<and> fst z < background_label cfg)
                      (zip labels (loss_cls ext cls_score labels label_weights)))"
    unfolding ohem_pos_inds_def
    using nonzero_select_zip [OF len, of "\<lambda>l. 0 \<le> l \<and> l < background_label cfg"] by simp
  have n: "map (\<lambda>i. loss_cls ext cls_score labels label_weights ! i)
             (ohem_neg_inds cfg labels) =
           map snd (filter (\<lambda>z. fst z = background_label cfg)
                      (zip labels (loss_cls ext cls_score labels label_weights)))"
    unfolding ohem_neg_inds_def
    using nonzero_select_zip [OF len, of "\<lambda>l. l = background_label cfg"] by simp
  have lp: "length (ohem_pos_inds cfg labels) =
            length (filter (\<lambda>l. 0 \<le> l \<and> l < background_label cfg) labels)"
    unfolding ohem_pos_inds_def by (rule nonzero_length)
  have ln: "length (ohem_neg_inds cfg labels) =
            length (filter (\<lambda>l. l = background_label cfg) labels)"
    unfolding ohem_neg_inds_def by (rule nonzero_length)
  show ?thesis
    using ohem_budget_by_index [OF r len, of bbox_pred anchors bbox_targets bbox_weights nts]
    unfolding p n lp ln .
qed

text \<open>
  The theorem at a concrete image: labels \<open>[0, 2, 2, 2, 2, 1]\<close> with background label
  2 and ratio 1, losses \<open>[5, 1, 4, 2, 3, 6]\<close> and \<open>num_total_samples = 2\<close>. There are
  two positives (losses 5 and 6) and four negatives (losses 1, 4, 2, 3), of which two
  are selected; the classification loss is \<open>(11 + 7) / 2 = 9\<close>.
\<close>

lemma ohem_demo_value:
  "loss_single_OHEM (demo_cfg True) (demo_collab [] [] [] [5, 1, 4, 2, 3, 6]) [] [] []
     [0, 2, 2, 2, 2, 1] [] [] [] 2 = Inr (9, 0)"
  by (simp add: loss_single_OHEM_def demo_cfg_simps demo_collab_simps ohem_pos_inds_def
      ohem_neg_inds_def nonzero_def index_select_def topk_def then_do_def upt_conv_Cons)

theorem ohem_negative_budget_witness:
  "loss_single_OHEM (demo_cfg True) (demo_collab [] [] [] [5, 1, 4, 2, 3, 6]) [] [] []
     [0, 2, 2, 2, 2, 1] [] [] [] 2 = Inr (9, 0) \<and>
   (\<exists>sel rest.
      mset sel + mset rest = mset [1, 4, 2, 3 :: real] \<and>
      (\<forall>a \<in> set sel. \<forall>b \<in> set rest. b \<le> a) \<and>
      length sel = 2 \<and> (11 + sum_list sel) / 2 = 9)"
proof -
  let ?cfg = "demo_cfg True"
  let ?ext = "demo_collab [] [] [] [5, 1, 4, 2, 3, 6]"
  have h1: "0 \<le> neg_pos_ratio ?cfg"
    by (simp add: demo_cfg_simps)
  have h2: "length (loss_cls ?ext [] [0, 2, 2, 2, 2, 1] []) = length [0, 2, 2, 2, 2, 1 :: int]"
    by (simp add: demo_collab_simps)
  obtain sel rest where
    v: "loss_single_OHEM ?cfg ?ext [] [] [] [0, 2, 2, 2, 2, 1] [] [] [] 2 =
          Inr ((11 + sum_list sel) / 2, 0)"
    and m: "mset sel + mset rest = mset [1, 4, 2, 3 :: real]"
    and d: "\<forall>a \<in> set sel. \<forall>b \<in> set rest. b \<le> a"
    and l: "length sel = 2"
    using ohem_negative_budget [OF h1 h2, of "[]" "[]" "[]" "[]" 2]
    by (auto simp: demo_cfg_simps demo_collab_simps)
  have "(11 + sum_list sel) / 2 = 9"
    using v ohem_demo_value by simp
  then show ?thesis
    using ohem_demo_value m d l by blast
qed


section \<open>Mask coefficients\<close>

lemma tanh32_range: "tanh32 v = NaN \<or> in_unit_interval (tanh32 v)"
  using tanh_real_gt_neg1 [of "case v of Finite r \<Rightarrow> r | _ \<Rightarrow> 0"]
    tanh_real_lt_1 [of "case v of Finite r \<Rightarrow> r | _ \<Rightarrow> 0"]
  by (cases v) simp_all

lemma tanh32_nan: "tanh32 v = NaN \<longleftrightarrow> v = NaN"
  by (cases v) simp_all

text \<open>
  Claim C10, as amended. Every component of the mask coefficients that
  \<open>forward_single\<close> returns is NaN or a number of the closed interval from -1 to 1,
  whatever the feature map and the layers are; it is NaN exactly where the output of
  the coefficient convolution is NaN. So when that output has no NaN, every component
  lies in the interval.
\<close>

theorem forward_single_coeff_bounded:
  "(\<forall>c \<in> set (snd (snd (forward_single head_convs conv_cls conv_reg conv_coeff x))).
      c = NaN \<or> in_unit_interval c) \<and>
   length (snd (snd (forward_single head_convs conv_cls conv_reg conv_coeff x))) =
     length (conv_coeff (fold (\<lambda>head_conv y. head_conv y) head_convs x)) \<and>
   (\<forall>i < length (conv_coeff (fold (\<lambda>head_conv y. head_conv y) head_convs x)).
      snd (snd (forward_single head_convs conv_cls conv_reg conv_coeff x)) ! i = NaN \<longleftrightarrow>
      conv_coeff (fold (\<lambda>head_conv y. head_conv y) head_convs x) ! i = NaN) \<and>
   (NaN \<notin> set (conv_coeff (fold (\<lambda>head_conv y. head_conv y) head_convs x)) \<longrightarrow>
      (\<forall>c \<in> set (snd (snd (forward_single head_convs conv_cls conv_reg conv_coeff x))).
         in_unit_interval c))"
proof -
  define out where "out = conv_coeff (fold (\<lambda>head_conv y. head_conv y) head_convs x)"
  have c: "snd (snd (forward_single head_convs conv_cls conv_reg conv_coeff x)) =
      map tanh32 out"
    by (simp add: forward_single_def Let_def out_def)
  have a: "\<forall>c \<in> set (map tanh32 out). c = NaN \<or> in_unit_interval c"
    using tanh32_range by auto
  have n: "\<forall>i < length out. map tanh32 out ! i = NaN \<longleftrightarrow> out ! i = NaN"
    by (simp add: tanh32_nan)
  have f: "\<forall>c \<in> set (map tanh32 out). in_unit_interval c" if "NaN \<notin> set out"
  proof
    fix c assume "c \<in> set (map tanh32 out)"
    then obtain v where v: "v \<in> set out" and cv: "c = tanh32 v" by auto
    have "v \<noteq> NaN" using v that by auto
    then show "in_unit_interval c"
      using tanh32_range [of v] tanh32_nan [of v] cv by simp
  qed
  show ?thesis
    unfolding c out_def [symmetric] using a n f by simp
qed

text \<open>The claim as stated fails for a feature map with a NaN: with layers that pass
  their input on, the coefficient is NaN, which is no number of the interval.\<close>

theorem forward_single_nan_counterexample:
  "snd (snd (forward_single [\<lambda>y. y] (\<lambda>y. y) (\<lambda>y. y) (\<lambda>y. y) [NaN])) = [NaN] \<and>
   \<not> in_unit_interval NaN"
  by (simp add: forward_single_def Let_def)

text \<open>The theorem for the same layers on a feature map without NaN.\<close>

theorem forward_single_coeff_bounded_witness:
  "snd (snd (forward_single [\<lambda>y. y] (\<lambda>y. y) (\<lambda>y. y) (\<lambda>y. y) [Finite 7, NegInf])) =
     [Finite (tanh 7), Finite (- 1)] \<and>
   NaN \<notin> set [Finite 7, NegInf] \<and>
   in_unit_interval (Finite (tanh 7)) \<and> in_unit_interval (Finite (- 1))"
proof -
  have v: "snd (snd (forward_single [\<lambda>y. y] (\<lambda>y. y) (\<lambda>y. y) (\<lambda>y. y) [Finite 7, NegInf])) =
     [Finite (tanh 7), Finite (- 1)]"
    by (simp add: forward_single_def Let_def)
  have n: "NaN \<notin> set (fold (\<lambda>head_conv y. head_conv y) [\<lambda>y. y] [Finite 7, NegInf])"
    by simp
  show ?thesis
    using forward_single_coeff_bounded [of "[\<lambda>y. y]" "\<lambda>y. y" "\<lambda>y. y" "\<lambda>y. y"
        "[Finite 7, NegInf]"] n
    unfolding v by simp
qed

section \<open>Coordinate sanitation\<close>

text \<open>
  What the two clamps give for every box: a low coordinate that is at least 0 and a
  high coordinate that is at most the dimension. For a box inside the image (relative
  coordinates between 0 and 1) and a non-negative padding the low coordinate is also at
  most the high one.
\<close>

lemma sanitize_coordinates_one_sided:
  assumes "sanitize_coordinates x1 x2 img_size padding cast = (lo, hi)"
  shows "\<forall>v \<in> set lo. 0 \<le> v" and "\<forall>v \<in> set hi. v \<le> real img_size"
  using assms by (auto simp: sanitize_coordinates_def Let_def)

lemma sanitize_coordinates_inside_image:
  assumes a: "0 \<le> a" "a \<le> 1" and b: "0 \<le> b" "b \<le> 1" and p: "0 \<le> padding"
  shows "\<exists>lo hi. sanitize_coordinates [a] [b] img_size padding False = ([lo], [hi]) \<and>
           0 \<le> lo \<and> lo \<le> hi \<and> hi \<le> real img_size"
proof -
  have an: "0 \<le> a * real img_size" "a * real img_size \<le> real img_size"
    using a by (simp_all add: mult_left_le_one_le)
  have bn: "0 \<le> b * real img_size" "b * real img_size \<le> real img_size"
    using b by (simp_all add: mult_left_le_one_le)
  show ?thesis
    using an bn p by (auto simp: sanitize_coordinates_def Let_def min_def max_def)
qed


text \<open>
  Claim C2. The claim asks, for every box, for a low coordinate that is at most the high
  one, both within \<open>[0, dimension]\<close>. For the box with relative coordinates 2 and 3
  (wholly to the right of a map of 10 cells), with the padding 1 that \<open>crop\<close> passes,
  \<open>sanitize_coordinates\<close> returns the low coordinate 19 and the high coordinate 10:
  the low one is clamped from below only, the high one from above only.
\<close>

theorem sanitize_coordinates_box_outside:
  "sanitize_coordinates [2] [3] 10 1 False = ([19], [10])"
  by (simp add: sanitize_coordinates_def)

section \<open>Targets of the segmentation head\<close>

text \<open>
  Claim C3. The claim puts an instance in the channel of its label. For two classes and
  one instance of label 0 that covers the single cell of the map (\<open>interpolate\<close> is the
  identity at the map's own resolution), \<open>segm_get_targets\<close> leaves channel 0 all
  zero and sets channel 1: the instance is written to channel \<open>label - 1\<close>, which for
  label 0 is the last one.
\<close>

theorem segm_get_targets_channel_shift:
  "segm_get_targets (\<lambda>masks size. masks) [[[0]], [[0]]] [[[1]]] [0] = Inr (Some [[[0]], [[1]]])"
  by (simp add: segm_get_targets_def threshold_def py_index_def elementwise_max_def
      then_do_def)

section \<open>The box tensors passed to the mask head\<close>

text \<open>
  Claim C6. The claim says that \<open>forward\<close> leaves the box tensors of its caller
  unchanged. In inference mode, with the caller's tensor \<open>[[10, 20, 30, 40, 0.9]]\<close> at
  address 0 and an image of height 100 and width 200, the tensor at address 0 holds the
  relative coordinates \<open>[[0.05, 0.2, 0.15, 0.4, 0.9]]\<close> after the call. In training
  mode, on the same store, the tensor at address 0 is as before: that path divides a
  clone.
\<close>

theorem forward_inference_overwrites_boxes:
  "(case forward False (\<lambda>x. [[[[1]]]]) demo_store [[]] (PerImage [[[1]]]) [0]
           [\<lparr>img_shape = (100, 200)\<rparr>] None of
      Inl e \<Rightarrow> None
    | Inr (s', mask_pred_list) \<Rightarrow> Some (cells s' 0))
   = Some [[1 / 20, 1 / 5, 3 / 20, 2 / 5, 9 / 10]] \<and>
   cells demo_store 0 = [[10, 20, 30, 40, 9 / 10]] \<and>
   (case forward True (\<lambda>x. [[[[1]]]]) demo_store [[]] (PerLevel [[[[1]]]]) [0]
           [\<lparr>img_shape = (100, 200)\<rparr>]
           (Some [\<lparr>pos_inds = [0], neg_inds = [], pos_assigned_gt_inds = [0],
                   pos_bboxes = [], pos_gt_bboxes = []\<rparr>]) of
      Inl e \<Rightarrow> None
    | Inr (s', mask_pred_list) \<Rightarrow> Some (cells s' 0))
   = Some [[10, 20, 30, 40, 9 / 10]]"
  by (simp add: forward_def forward_image_def demo_store_def then_do_def matmul_t_def
      divide_in_place_def crop_def sanitize_coordinates_def permute_201_def cat_levels_def
      index_select_def clone_def Let_def)

section \<open>The cap on the masks trained per image\<close>









section \<open>An image without a valid anchor\<close>

text \<open>
  Claim C7. The claim says that target assignment and the loss return the sentinel
  \<^verbatim>\<open>None\<close> when an image has no anchor inside the valid region. For a batch of one
  image whose only anchor is outside, \<open>get_targets_single\<close> returns a tuple of six
  \<^verbatim>\<open>None\<close>; \<open>get_targets\<close> unpacks the batch's fields into seven names and raises
  ValueError before it reaches its test for \<^verbatim>\<open>None\<close>, and so does \<open>loss\<close>.
\<close>

theorem no_valid_anchors_raises:
  "get_targets_single (demo_cfg True) (demo_collab [(0, 0, 1, 1)] [False] [] [])
     [(0, 0, 1, 1)] [False] [1] [] None (Some []) [] \<lparr>img_shape = (10, 10)\<rparr> False =
     Inr [PyNone, PyNone, PyNone, PyNone, PyNone, PyNone] \<and>
   get_targets (demo_cfg True) (demo_collab [(0, 0, 1, 1)] [False] [] [])
     [[[(0, 0, 1, 1)]]] [[[False]]] [[]] [\<lparr>img_shape = (10, 10)\<rparr>] None (Some [[]]) [[]]
     False True = Inl ValueError \<and>
   loss (demo_cfg True) (demo_collab [(0, 0, 1, 1)] [False] [] [])
     [\<lparr>featmap_size = (1, 1), per_image = [[[Finite 0, Finite 0, Finite 0]]]\<rparr>]
     [\<lparr>featmap_size = (1, 1), per_image = [[[Finite 0, Finite 0, Finite 0, Finite 0]]]\<rparr>]
     [[]] [[]] [\<lparr>img_shape = (10, 10)\<rparr>] [[]] None = Inl ValueError"
proof -
  have s: "get_targets_single (demo_cfg True) (demo_collab [(0, 0, 1, 1)] [False] [] [])
     [(0, 0, 1, 1)] [False] nla [] None (Some []) [] meta False =
     Inr [PyNone, PyNone, PyNone, PyNone, PyNone, PyNone]" for nla meta
    by (simp add: get_targets_single_def demo_collab_simps eval_nat_numeral)
  have g: "get_targets (demo_cfg True) (demo_collab [(0, 0, 1, 1)] [False] [] [])
     [[[(0, 0, 1, 1)]]] [[[False]]] [[]] [\<lparr>img_shape = (10, 10)\<rparr>] None (Some [[]]) [[]]
     False True = Inl ValueError"
    unfolding get_targets_def
    by (simp add: s multi_apply_def then_do_def)
  have l: "loss (demo_cfg True) (demo_collab [(0, 0, 1, 1)] [False] [] [])
     [\<lparr>featmap_size = (1, 1), per_image = [[[Finite 0, Finite 0, Finite 0]]]\<rparr>]
     [\<lparr>featmap_size = (1, 1), per_image = [[[Finite 0, Finite 0, Finite 0, Finite 0]]]\<rparr>]
     [[]] [[]] [\<lparr>img_shape = (10, 10)\<rparr>] [[]] None = Inl ValueError"
    unfolding loss_def
    by (simp add: g then_do_def demo_cfg_simps demo_collab_simps)
  show ?thesis using s g l by blast
qed


section \<open>The rows of a batch\<close>

lemma get_targets_single_rows:
  assumes "get_targets_single cfg ext fa vf nla gb ig gl gm meta um = Inr row"
  shows "row = replicate 6 PyNone \<or> full_row row"
  using assms
  unfolding get_targets_single_def Let_def then_do_def full_row_def
  by (auto split: if_splits sum.splits prod.splits)

lemma map_raising_rows:
  "map_raising f xs = Inr ys \<Longrightarrow> y \<in> set ys \<Longrightarrow> \<exists>x \<in> set xs. f x = Inr y"
proof (induction xs arbitrary: ys)
  case Nil
  then show ?case by simp
next
  case (Cons x xs)
  then show ?case
    by (auto simp: then_do_def split: sum.splits)
qed

lemma fold_min_le: "fold min ns (n :: nat) \<le> n"
proof (induction ns arbitrary: n)
  case Nil
  show ?case by simp
next
  case (Cons a ns)
  have "fold min ns (min a n) \<le> min a n" by (rule Cons.IH)
  then show ?case by simp
qed

lemma fold_min_le_elem: "m \<in> set ns \<Longrightarrow> fold min ns (n :: nat) \<le> m"
proof (induction ns arbitrary: n)
  case Nil
  then show ?case by simp
next
  case (Cons a ns)
  then show ?case
    using fold_min_le [of ns "min a n"] by auto
qed

lemma fold_min_const: "\<forall>m \<in> set ns. m = n \<Longrightarrow> fold min ns (n :: nat) = n"
  by (induction ns) auto

lemma zip_star_fields:
  assumes "length (zip_star rows) \<ge> k" and "0 < k" and "row \<in> set rows"
  shows "k \<le> length row"
proof (cases rows)
  case Nil
  then show ?thesis using assms by simp
next
  case (Cons r rs)
  have "k \<le> fold min (map length rs) (length r)"
    using assms(1) Cons by simp
  moreover have "fold min (map length rs) (length r) \<le> length row"
    using assms(3) Cons fold_min_le [of "map length rs" "length r"]
      fold_min_le_elem [of "length row" "map length rs" "length r"] by auto
  ultimately show ?thesis by simp
qed

lemma zip_star_full:
  assumes "rows \<noteq> []" and "\<forall>row \<in> set rows. length row = n"
  shows "zip_star rows = map (\<lambda>j. map (\<lambda>row. row ! j) rows) [0..<n]"
proof (cases rows)
  case Nil
  then show ?thesis using assms by simp
next
  case (Cons r rs)
  have "fold min (map length rs) (length r) = n"
    using assms(2) Cons fold_min_const [of "map length rs" n] by auto
  then show ?thesis using Cons by simp
qed

lemma get_targets_SomeD:
  assumes "get_targets cfg ext al vfl gtb metas ign gl gm um rsr = Inr (Some tg)"
  shows "\<exists>args rows a b c d e f g.
     map_raising (\<lambda>(fa, vf, nla, gb, ig, lb, ms, meta).
        get_targets_single cfg ext fa vf nla gb ig lb ms meta um) args = Inr rows \<and>
     take 7 (zip_star rows) = [a, b, c, d, e, f, g] \<and>
     num_total_pos tg = sum_list (map (\<lambda>inds. max (length (inds_of inds)) 1) e) \<and>
     sampling_results_list tg =
       (if rsr then Some (map (\<lambda>s. the (sampling_of s)) g) else None)"
  using assms
  unfolding get_targets_def Let_def then_do_def multi_apply_def
  by (auto split: if_splits sum.splits list.splits option.splits intro!: exI)


lemma sum_max_one:
  "sum_list (map (\<lambda>sr. max (length (pos_inds sr)) 1) srs) =
   sum_list (map (\<lambda>sr. length (pos_inds sr)) srs) +
   length (filter (\<lambda>sr. pos_inds sr = []) srs)"
proof -
  have p: "max (length xs) (Suc 0) = length xs + (if xs = [] then 1 else 0)"
    for xs :: "nat list"
    by (cases xs) auto
  show ?thesis
    by (induction srs) (simp_all add: p)
qed

lemma full_row_fields:
  assumes "full_row row"
  shows "length row = 7"
    and "inds_of (row ! 4) = pos_inds (the (sampling_of (row ! 6)))"
  using assms unfolding full_row_def by auto

lemma batch_rows_full:
  assumes rows: "map_raising (\<lambda>(fa, vf, nla, gb, ig, lb, ms, meta).
        get_targets_single cfg ext fa vf nla gb ig lb ms meta um) args = Inr rows"
    and seven: "take 7 (zip_star rows) = [a, b, c, d, e, f, g]"
  shows "rows \<noteq> []" and "\<forall>row \<in> set rows. full_row row"
proof -
  have "length (take 7 (zip_star rows)) = 7" by (simp add: seven)
  then have len: "7 \<le> length (zip_star rows)" by simp
  then show "rows \<noteq> []" by auto
  show "\<forall>row \<in> set rows. full_row row"
  proof
    fix row assume r: "row \<in> set rows"
    have l7: "7 \<le> length row"
      using zip_star_fields [OF len _ r] by simp
    obtain x where "x \<in> set args"
      and "(\<lambda>(fa, vf, nla, gb, ig, lb, ms, meta).
        get_targets_single cfg ext fa vf nla gb ig lb ms meta um) x = Inr row"
      using map_raising_rows [OF rows r] by blast
    then have "row = replicate 6 PyNone \<or> full_row row"
      by (auto simp: split_def dest: get_targets_single_rows)
    then show "full_row row" using l7 by auto
  qed
qed

text \<open>
  \<open>get_targets\<close> never returns \<^verbatim>\<open>None\<close>: a row of six \<^verbatim>\<open>None\<close> leaves the batch
  with fewer than seven fields, and the unpacking fails before the test for \<^verbatim>\<open>None\<close>.
\<close>

lemma get_targets_NoneD:
  assumes "get_targets cfg ext al vfl gtb metas ign gl gm um rsr = Inr None"
  shows "\<exists>args rows a b c d e f g.
     map_raising (\<lambda>(fa, vf, nla, gb, ig, lb, ms, meta).
        get_targets_single cfg ext fa vf nla gb ig lb ms meta um) args = Inr rows \<and>
     take 7 (zip_star rows) = [a, b, c, d, e, f, g] \<and>
     list_ex (\<lambda>labels. labels = PyNone) a"
  using assms
  unfolding get_targets_def Let_def then_do_def multi_apply_def
  by (auto split: if_splits sum.splits list.splits option.splits intro!: exI)

lemma get_targets_never_none:
  "get_targets cfg ext al vfl gtb metas ign gl gm um rsr \<noteq> Inr None"
proof
  assume n: "get_targets cfg ext al vfl gtb metas ign gl gm um rsr = Inr None"
  obtain args rows a b c d e f g where
    rows: "map_raising (\<lambda>(fa, vf, nla, gb, ig, lb, ms, meta).
        get_targets_single cfg ext fa vf nla gb ig lb ms meta um) args = Inr rows"
    and seven: "take 7 (zip_star rows) = [a, b, c, d, e, f, g]"
    and none: "list_ex (\<lambda>labels. labels = PyNone) a"
    using get_targets_NoneD [OF n] by auto
  have ne: "rows \<noteq> []" and full: "\<forall>row \<in> set rows. full_row row"
    using batch_rows_full [OF rows seven] by blast+
  have l7: "\<forall>row \<in> set rows. length row = 7"
    using full full_row_fields(1) by blast
  have z: "zip_star rows = map (\<lambda>j. map (\<lambda>row. row ! j) rows) [0..<7]"
    using zip_star_full [OF ne l7] .
  have u7: "[0..<7] = [0, 1, 2, 3, 4, 5, 6 :: nat]" by code_simp
  have a: "a = map (\<lambda>row. row ! 0) rows"
    using seven unfolding z u7 by simp
  have "\<forall>row \<in> set rows. row ! 0 \<noteq> PyNone"
    using full unfolding full_row_def by auto
  then show False
    using none unfolding a by (auto simp: list_ex_iff)
qed

section \<open>The normalizer of the losses\<close>

text \<open>\<open>num_total_pos\<close> of the targets, from the sampling results.\<close>

lemma num_total_pos_value:
  assumes "get_targets cfg ext al vfl gtb metas ign gl gm um True = Inr (Some tg)"
  shows "\<exists>srs. sampling_results_list tg = Some srs \<and>
     num_total_pos tg = sum_list (map (\<lambda>sr. length (pos_inds sr)) srs) +
                        length (filter (\<lambda>sr. pos_inds sr = []) srs)"
proof -
  obtain args rows a b c d e f g where
    rows: "map_raising (\<lambda>(fa, vf, nla, gb, ig, lb, ms, meta).
        get_targets_single cfg ext fa vf nla gb ig lb ms meta um) args = Inr rows"
    and seven: "take 7 (zip_star rows) = [a, b, c, d, e, f, g]"
    and tp: "num_total_pos tg = sum_list (map (\<lambda>inds. max (length (inds_of inds)) 1) e)"
    and sr: "sampling_results_list tg = Some (map (\<lambda>s. the (sampling_of s)) g)"
    using get_targets_SomeD [OF assms] by auto
  have ne: "rows \<noteq> []" and full: "\<forall>row \<in> set rows. full_row row"
    using batch_rows_full [OF rows seven] by blast+
  have l7: "\<forall>row \<in> set rows. length row = 7"
    using full full_row_fields(1) by blast
  have z: "zip_star rows = map (\<lambda>j. map (\<lambda>row. row ! j) rows) [0..<7]"
    using zip_star_full [OF ne l7] .
  have u7: "[0..<7] = [0, 1, 2, 3, 4, 5, 6 :: nat]" by code_simp
  have e: "e = map (\<lambda>row. row ! 4) rows" and g: "g = map (\<lambda>row. row ! 6) rows"
    using seven unfolding z u7 by simp_all
  define srs where "srs = map (\<lambda>s. the (sampling_of s)) g"
  have "sum_list (map (\<lambda>inds. max (length (inds_of inds)) 1) e) =
        sum_list (map (\<lambda>sr. max (length (pos_inds sr)) 1) srs)"
    unfolding e g srs_def map_map comp_def
    by (rule arg_cong [where f = sum_list], rule map_cong [OF refl])
       (simp add: full full_row_fields(2))
  then show ?thesis
    using tp sr sum_max_one [of srs] unfolding srs_def by simp
qed

lemma map_raising_nth:
  "map_raising f xs = Inr ys \<Longrightarrow>
   length ys = length xs \<and> (\<forall>i < length xs. f (xs ! i) = Inr (ys ! i))"
proof (induction xs arbitrary: ys)
  case Nil
  then show ?case by simp
next
  case (Cons x xs)
  obtain y ys' where y: "f x = Inr y" and r: "map_raising f xs = Inr ys'"
    and ys: "ys = y # ys'"
    using Cons.prems by (auto simp: then_do_def split: sum.splits)
  have ih: "length ys' = length xs \<and> (\<forall>i < length xs. f (xs ! i) = Inr (ys' ! i))"
    using Cons.IH [OF r] .
  show ?case
    unfolding ys using y ih by (auto simp: nth_Cons split: nat.splits)
qed

lemma multi_apply_pairs:
  assumes F: "\<And>x. F x = then_do (G x) (\<lambda>(c, b). Inr [c, b])"
    and m: "multi_apply F args = Inr [lc, lb]"
  shows "length lc = length args \<and> length lb = length args \<and>
    (\<forall>i < length args. G (args ! i) = Inr (lc ! i, lb ! i))"
proof -
  obtain rows where rows: "map_raising F args = Inr rows" and z: "zip_star rows = [lc, lb]"
    using m unfolding multi_apply_def then_do_def by (auto split: sum.splits)
  have n: "length rows = length args" and
    r: "\<forall>i < length args. F (args ! i) = Inr (rows ! i)"
    using map_raising_nth [OF rows] by blast+
  have g: "\<exists>c b. G (args ! i) = Inr (c, b) \<and> rows ! i = [c, b]" if i: "i < length args" for i
  proof -
    have "then_do (G (args ! i)) (\<lambda>(c, b). Inr [c, b]) = Inr (rows ! i)"
      using r i unfolding F by blast
    then show ?thesis
      by (cases "G (args ! i)") (auto simp: then_do_def)
  qed
  have ne: "rows \<noteq> []" using z by auto
  have l2: "\<forall>row \<in> set rows. length row = 2"
  proof
    fix row assume "row \<in> set rows"
    then obtain i where "i < length rows" and "rows ! i = row"
      by (auto simp: in_set_conv_nth)
    then show "length row = 2" using g [of i] n by auto
  qed
  have "zip_star rows = map (\<lambda>j. map (\<lambda>row. row ! j) rows) [0..<2]"
    using zip_star_full [OF ne l2] .
  then have lc: "lc = map (\<lambda>row. row ! 0) rows" and lb: "lb = map (\<lambda>row. row ! 1) rows"
    using z by (simp_all add: upt_conv_Cons)
  show ?thesis
    using g n unfolding lc lb by fastforce
qed

lemma loss_single_OHEM_divides:
  assumes "loss_single_OHEM cfg ext cs bp an lb lw bt bw nts = Inr (c, b)"
  shows "\<exists>s b1. loss_single_OHEM cfg ext cs bp an lb lw bt bw 1 = Inr (s, b1) \<and>
     c = s / nts \<and>
     b = loss_bbox ext (if reg_decoded_bbox cfg then decode ext an bp else bp) bt bw nts"
proof -
  obtain ns ts ps where
    "index_select (loss_cls ext cs lb lw) (ohem_neg_inds cfg lb) = Inr ns"
    "topk ns (if length (ohem_pos_inds cfg lb) = 0 then int (length (ohem_neg_inds cfg lb))
              else (let n = neg_pos_ratio cfg * int (length (ohem_pos_inds cfg lb))
                    in if n > int (length (ohem_neg_inds cfg lb))
                       then int (length (ohem_neg_inds cfg lb)) else n)) = Inr ts"
    "index_select (loss_cls ext cs lb lw) (ohem_pos_inds cfg lb) = Inr ps"
    "c = (sum_list ps + sum_list ts) / nts"
    "b = loss_bbox ext (if reg_decoded_bbox cfg then decode ext an bp else bp) bt bw nts"
    using assms unfolding loss_single_OHEM_def then_do_def
    by (simp add: Let_def split: sum.splits)
  then show ?thesis
    unfolding loss_single_OHEM_def then_do_def
    by (simp add: Let_def)
qed


lemma loss_ohem_SomeD:
  assumes ohem: "use_ohem cfg"
    and ret: "loss cfg ext cls_scores bbox_preds gt_bboxes gt_labels img_metas gt_masks ign =
      Inr (Some ((lc, lb), srs))"
  shows "\<exists>al vfl tg.
     get_anchors ext (map featmap_size cls_scores) img_metas = (al, vfl) \<and>
     get_targets cfg ext al vfl gt_bboxes img_metas ign (Some gt_labels) gt_masks False True =
       Inr (Some tg) \<and>
     (case sampling_results_list tg of None \<Rightarrow> [] | Some s \<Rightarrow> s) = srs \<and>
     multi_apply
       (\<lambda>(cls_score, bbox_pred, anchors, labels, label_weights, bbox_targets, bbox_weights).
          then_do (loss_single_OHEM cfg ext cls_score bbox_pred anchors labels
                     label_weights bbox_targets bbox_weights (real (num_total_pos tg)))
            (\<lambda>(c, b). Inr [c, b]))
       (zip (cat_levels (length img_metas) (map per_image cls_scores))
         (zip (cat_levels (length img_metas) (map per_image bbox_preds))
           (zip (map concat (take (length img_metas) al))
             (zip (cat_levels (length img_metas) (labels_list tg))
               (zip (cat_levels (length img_metas) (label_weights_list tg))
                 (zip (cat_levels (length img_metas) (bbox_targets_list tg))
                      (cat_levels (length img_metas) (bbox_weights_list tg)))))))) =
       Inr [lc, lb]"
  using ret ohem
  unfolding loss_def Let_def then_do_def
  by (auto split: if_splits sum.splits list.splits option.splits prod.splits intro!: exI)

lemma one_background_image:
  "get_targets (demo_cfg b) (demo_collab a f [BACKGROUND] pa) [[[(0, 0, 1, 1)]]]
     [[[True]]] [[]] [meta] None (Some [[]]) [[]] um True = Inr (Some background_targets)"
proof -
  have s: "get_targets_single (demo_cfg b) (demo_collab a f [BACKGROUND] pa)
     [(0, 0, 1, 1)] [True] nla [] None (Some []) [] meta um =
     Inr [Labels [2], Weights [1], Boxes [(0, 0, 0, 0)], Boxes [(0, 0, 0, 0)], Inds [],
          Inds [0], Sampling background_sampling]" for nla
    by (cases um)
       (simp_all add: get_targets_single_def fill_targets_def fill_positive_def unmap_targets_def unmap_def
        count_true_def demo_collab_simps demo_cfg_simps mask_select_def pseudo_sample_def
        then_do_def index_fill_def Let_def background_sampling_def)
  show ?thesis
    unfolding get_targets_def
    by (simp add: s multi_apply_def then_do_def images_to_levels_def background_targets_def)
qed

lemma ohem_collab_simps:
  "anchor_inside_flags ohem_collab fa vf sh bd = vf"
  "assign_iou ohem_collab ancs gb gm ign gl =
     (if gb = [] then replicate (length ancs) BACKGROUND
      else take (length ancs) [BACKGROUND, Matched 0, BACKGROUND])"
  "sample ohem_collab = pseudo_sample"
  "encode ohem_collab bs gs = gs"
  "decode ohem_collab ancs ds = ds"
  "loss_cls ohem_collab sc ls lw = [2, 6, 4]"
  "loss_bbox ohem_collab bp bt bw n = 3 / n"
  "get_anchors ohem_collab sizes metas =
     (replicate (length metas) [three_anchors],
      replicate (length metas) [[True, True, True]])"
  by (simp_all add: ohem_collab_def demo_collab_simps)

lemma ohem_batch_targets:
  "get_targets (demo_cfg True) ohem_collab [[three_anchors], [three_anchors]]
     [[[True, True, True]], [[True, True, True]]] [[(4, 4, 8, 8)], []]
     [\<lparr>img_shape = (12, 12)\<rparr>, \<lparr>img_shape = (12, 12)\<rparr>] None (Some [[1], []]) [[], []]
     False True =
   Inr (Some ohem_targets)"
proof -
  have s1: "get_targets_single (demo_cfg True) ohem_collab
     [(0, 0, 4, 4), (4, 4, 8, 8), (8, 8, 12, 12)] [True, True, True] nla [(4, 4, 8, 8)] None
     (Some [1]) [] meta False =
     Inr [Labels [2, 1, 2], Weights [1, 1, 1],
          Boxes [(0, 0, 0, 0), (4, 4, 8, 8), (0, 0, 0, 0)],
          Boxes [(0, 0, 0, 0), (1, 1, 1, 1), (0, 0, 0, 0)], Inds [1], Inds [0, 2],
          Sampling \<lparr>pos_inds = [1], neg_inds = [0, 2], pos_assigned_gt_inds = [0],
                 pos_bboxes = [(4, 4, 8, 8)], pos_gt_bboxes = [(4, 4, 8, 8)]\<rparr>]"
    for nla meta
    by (simp add: get_targets_single_def fill_targets_def fill_positive_def unmap_targets_def
        unmap_def count_true_def ohem_collab_simps demo_cfg_simps mask_select_def
        pseudo_sample_def then_do_def index_fill_def index_put_def index_select_def Let_def
        upt_conv_Cons)
  have s2: "get_targets_single (demo_cfg True) ohem_collab
     [(0, 0, 4, 4), (4, 4, 8, 8), (8, 8, 12, 12)] [True, True, True] nla [] None
     (Some []) [] meta False =
     Inr [Labels [2, 2, 2], Weights [1, 1, 1],
          Boxes [(0, 0, 0, 0), (0, 0, 0, 0), (0, 0, 0, 0)],
          Boxes [(0, 0, 0, 0), (0, 0, 0, 0), (0, 0, 0, 0)], Inds [], Inds [0, 1, 2],
          Sampling \<lparr>pos_inds = [], neg_inds = [0, 1, 2], pos_assigned_gt_inds = [],
                 pos_bboxes = [], pos_gt_bboxes = []\<rparr>]"
    for nla meta
    by (simp add: get_targets_single_def fill_targets_def fill_positive_def unmap_targets_def
        unmap_def count_true_def ohem_collab_simps demo_cfg_simps mask_select_def
        pseudo_sample_def then_do_def index_fill_def index_put_def index_select_def Let_def
        upt_conv_Cons)
  show ?thesis
    unfolding get_targets_def
    by (simp add: s1 s2 multi_apply_def then_do_def images_to_levels_def upt_conv_Cons
        ohem_targets_def ohem_sampling_def three_anchors_def)
qed

lemma ohem_image_losses:
  "loss_single_OHEM (demo_cfg True) ohem_collab cs bp an [2, 1, 2] lw bt bw 2 =
     Inr (5, 3 / 2)"
  "loss_single_OHEM (demo_cfg True) ohem_collab cs bp an [2, 2, 2] lw bt bw 2 =
     Inr (6, 3 / 2)"
  by (simp_all add: loss_single_OHEM_def demo_cfg_simps ohem_collab_simps ohem_pos_inds_def
      ohem_neg_inds_def nonzero_def index_select_def topk_def then_do_def upt_conv_Cons)

lemma ohem_batch_loss:
  "loss (demo_cfg True) ohem_collab ohem_scores ohem_deltas [[(4, 4, 8, 8)], []] [[1], []]
     [\<lparr>img_shape = (12, 12)\<rparr>, \<lparr>img_shape = (12, 12)\<rparr>] [[], []] None =
   Inr (Some (([5, 6], [3 / 2, 3 / 2]), ohem_sampling))"
proof -
  have r2: "replicate 2 x = [x, x]" for x :: 'a
    by (simp add: numeral_2_eq_2)
  have c: "cat_levels (Suc (Suc 0)) [[a, b]] = [a, b]" for a b :: "'a list"
    by (simp add: cat_levels_def upt_conv_Cons)
  show ?thesis
    unfolding loss_def
    by (simp add: ohem_collab_simps demo_cfg_simps r2 ohem_batch_targets all_finite_def
        then_do_def ohem_targets_def c ohem_scores_def ohem_deltas_def multi_apply_def
        ohem_image_losses)
qed

text \<open>
  Claim C4, as amended. Take a call of \<open>loss\<close> with hard-negative mining that
  returns the two lists of losses and the sampling results of the batch. The
  normalizer is \<open>num_total_pos\<close> of the targets, and it is the sum over the images of
  \<open>max (number of positive anchors) 1\<close>: the batch-wide count of positive anchors plus
  the number of images that have none. The loss pair of every image is
  \<open>loss_single_OHEM\<close> of that image's rows with this number as \<open>num_total_samples\<close>:
  the classification loss is the loss with normalizer 1 divided by it, and the box
  loss is \<open>loss_bbox\<close> with it as \<^verbatim>\<open>avg_factor\<close>.
\<close>

theorem loss_num_total_samples:
  assumes ohem: "use_ohem cfg"
    and ret: "loss cfg ext cls_scores bbox_preds gt_bboxes gt_labels img_metas gt_masks ign =
      Inr (Some ((losses_cls, losses_bbox), srs))"
  shows "\<exists>al vfl tg.
     get_anchors ext (map featmap_size cls_scores) img_metas = (al, vfl) \<and>
     get_targets cfg ext al vfl gt_bboxes img_metas ign (Some gt_labels) gt_masks False True =
       Inr (Some tg) \<and>
     sampling_results_list tg = Some srs \<and>
     num_total_pos tg = sum_list (map (\<lambda>sr. max (length (pos_inds sr)) 1) srs) \<and>
     sum_list (map (\<lambda>sr. max (length (pos_inds sr)) 1) srs) =
       sum_list (map (\<lambda>sr. length (pos_inds sr)) srs) +
       length (filter (\<lambda>sr. pos_inds sr = []) srs) \<and>
     length losses_bbox = length losses_cls \<and>
     (\<forall>i < length losses_cls.
        loss_single_OHEM cfg ext
          (cat_levels (length img_metas) (map per_image cls_scores) ! i)
          (cat_levels (length img_metas) (map per_image bbox_preds) ! i)
          (map concat (take (length img_metas) al) ! i)
          (cat_levels (length img_metas) (labels_list tg) ! i)
          (cat_levels (length img_metas) (label_weights_list tg) ! i)
          (cat_levels (length img_metas) (bbox_targets_list tg) ! i)
          (cat_levels (length img_metas) (bbox_weights_list tg) ! i)
          (real (sum_list (map (\<lambda>sr. max (length (pos_inds sr)) 1) srs))) =
          Inr (losses_cls ! i, losses_bbox ! i) \<and>
        (\<exists>s b1.
           loss_single_OHEM cfg ext
          (cat_levels (length img_metas) (map per_image cls_scores) ! i)
          (cat_levels (length img_metas) (map per_image bbox_preds) ! i)
          (map concat (take (length img_metas) al) ! i)
          (cat_levels (length img_metas) (labels_list tg) ! i)
          (cat_levels (length img_metas) (label_weights_list tg) ! i)
          (cat_levels (length img_metas) (bbox_targets_list tg) ! i)
          (cat_levels (length img_metas) (bbox_weights_list tg) ! i)
          1 = Inr (s, b1) \<and>
           losses_cls ! i = s / (real (sum_list (map (\<lambda>sr. max (length (pos_inds sr)) 1) srs))) \<and>
           losses_bbox ! i =
             loss_bbox ext
               (if reg_decoded_bbox cfg
                then decode ext (map concat (take (length img_metas) al) ! i)
                       (cat_levels (length img_metas) (map per_image bbox_preds) ! i)
                else cat_levels (length img_metas) (map per_image bbox_preds) ! i)
               (cat_levels (length img_metas) (bbox_targets_list tg) ! i)
               (cat_levels (length img_metas) (bbox_weights_list tg) ! i)
               (real (sum_list (map (\<lambda>sr. max (length (pos_inds sr)) 1) srs)))))"
proof -
  define G where "G = (\<lambda>nts. \<lambda>(cls_score, bbox_pred, anchors, labels, label_weights,
      bbox_targets, bbox_weights).
      loss_single_OHEM cfg ext cls_score bbox_pred anchors labels label_weights bbox_targets
        bbox_weights nts)"
  obtain al vfl tg where
    ga: "get_anchors ext (map featmap_size cls_scores) img_metas = (al, vfl)"
    and gt: "get_targets cfg ext al vfl gt_bboxes img_metas ign (Some gt_labels) gt_masks
       False True = Inr (Some tg)"
    and sr: "(case sampling_results_list tg of None \<Rightarrow> [] | Some s \<Rightarrow> s) = srs"
    and ma: "multi_apply
       (\<lambda>(cls_score, bbox_pred, anchors, labels, label_weights, bbox_targets, bbox_weights).
          then_do (loss_single_OHEM cfg ext cls_score bbox_pred anchors labels
                     label_weights bbox_targets bbox_weights (real (num_total_pos tg)))
            (\<lambda>(c, b). Inr [c, b]))
       (zip (cat_levels (length img_metas) (map per_image cls_scores))
         (zip (cat_levels (length img_metas) (map per_image bbox_preds))
           (zip (map concat (take (length img_metas) al))
             (zip (cat_levels (length img_metas) (labels_list tg))
               (zip (cat_levels (length img_metas) (label_weights_list tg))
                 (zip (cat_levels (length img_metas) (bbox_targets_list tg))
                      (cat_levels (length img_metas) (bbox_weights_list tg)))))))) =
       Inr [losses_cls, losses_bbox]"
    using loss_ohem_SomeD [OF ohem ret] by blast
  obtain srs' where s': "sampling_results_list tg = Some srs'"
    and tp': "num_total_pos tg = sum_list (map (\<lambda>sr. length (pos_inds sr)) srs') +
                        length (filter (\<lambda>sr. pos_inds sr = []) srs')"
    using num_total_pos_value [OF gt] by blast
  have srs: "srs' = srs" using sr s' by simp
  have tp: "num_total_pos tg = sum_list (map (\<lambda>sr. max (length (pos_inds sr)) 1) srs)"
    using tp' sum_max_one [of srs] unfolding srs by simp
  let ?args = "zip (cat_levels (length img_metas) (map per_image cls_scores))
         (zip (cat_levels (length img_metas) (map per_image bbox_preds))
           (zip (map concat (take (length img_metas) al))
             (zip (cat_levels (length img_metas) (labels_list tg))
               (zip (cat_levels (length img_metas) (label_weights_list tg))
                 (zip (cat_levels (length img_metas) (bbox_targets_list tg))
                      (cat_levels (length img_metas) (bbox_weights_list tg)))))))"
  have F: "(\<lambda>(cls_score, bbox_pred, anchors, labels, label_weights, bbox_targets, bbox_weights).
          then_do (loss_single_OHEM cfg ext cls_score bbox_pred anchors labels
                     label_weights bbox_targets bbox_weights (real (num_total_pos tg)))
            (\<lambda>(c, b). Inr [c, b])) x =
     then_do (G (real (num_total_pos tg)) x) (\<lambda>(c, b). Inr [c, b])" for x
    unfolding G_def by (simp add: split_def)
  have P: "length losses_cls = length ?args \<and> length losses_bbox = length ?args \<and>
    (\<forall>i < length ?args. G (real (num_total_pos tg)) (?args ! i) =
       Inr (losses_cls ! i, losses_bbox ! i))"
    using multi_apply_pairs [of _ "G (real (num_total_pos tg))", OF F ma] .
  have pl: "length losses_cls = length ?args" using P by (rule conjunct1)
  have pb: "length losses_bbox = length ?args" using P by (rule conjunct2 [THEN conjunct1])
  have pa: "\<forall>i < length ?args. G (real (num_total_pos tg)) (?args ! i) =
       Inr (losses_cls ! i, losses_bbox ! i)"
    using P by (rule conjunct2 [THEN conjunct2])
  have each: "loss_single_OHEM cfg ext
          (cat_levels (length img_metas) (map per_image cls_scores) ! i)
          (cat_levels (length img_metas) (map per_image bbox_preds) ! i)
          (map concat (take (length img_metas) al) ! i)
          (cat_levels (length img_metas) (labels_list tg) ! i)
          (cat_levels (length img_metas) (label_weights_list tg) ! i)
          (cat_levels (length img_metas) (bbox_targets_list tg) ! i)
          (cat_levels (length img_metas) (bbox_weights_list tg) ! i)
          (real (num_total_pos tg)) = Inr (losses_cls ! i, losses_bbox ! i)"
    if i: "i < length losses_cls" for i
  proof -
    have l: "i < length ?args" using i unfolding pl .
    have "G (real (num_total_pos tg)) (?args ! i) = Inr (losses_cls ! i, losses_bbox ! i)"
      using pa [rule_format, OF l] .
    moreover have "?args ! i =
      (cat_levels (length img_metas) (map per_image cls_scores) ! i,
       cat_levels (length img_metas) (map per_image bbox_preds) ! i,
       map concat (take (length img_metas) al) ! i,
       cat_levels (length img_metas) (labels_list tg) ! i,
       cat_levels (length img_metas) (label_weights_list tg) ! i,
       cat_levels (length img_metas) (bbox_targets_list tg) ! i,
       cat_levels (length img_metas) (bbox_weights_list tg) ! i)"
      using l by (simp only: length_zip min_less_iff_conj nth_zip)
    ultimately show ?thesis unfolding G_def by (simp only: prod.case)
  qed
  have both: "loss_single_OHEM cfg ext
          (cat_levels (length img_metas) (map per_image cls_scores) ! i)
          (cat_levels (length img_metas) (map per_image bbox_preds) ! i)
          (map concat (take (length img_metas) al) ! i)
          (cat_levels (length img_metas) (labels_list tg) ! i)
          (cat_levels (length img_metas) (label_weights_list tg) ! i)
          (cat_levels (length img_metas) (bbox_targets_list tg) ! i)
          (cat_levels (length img_metas) (bbox_weights_list tg) ! i)
          (real (num_total_pos tg)) = Inr (losses_cls ! i, losses_bbox ! i) \<and>
        (\<exists>s b1.
           loss_single_OHEM cfg ext
          (cat_levels (length img_metas) (map per_image cls_scores) ! i)
          (cat_levels (length img_metas) (map per_image bbox_preds) ! i)
          (map concat (take (length img_metas) al) ! i)
          (cat_levels (length img_metas) (labels_list tg) ! i)
          (cat_levels (length img_metas) (label_weights_list tg) ! i)
          (cat_levels (length img_metas) (bbox_targets_list tg) ! i)
          (cat_levels (length img_metas) (bbox_weights_list tg) ! i)
          1 = Inr (s, b1) \<and>
           losses_cls ! i = s / real (num_total_pos tg) \<and>
           losses_bbox ! i =
             loss_bbox ext
               (if reg_decoded_bbox cfg
                then decode ext (map concat (take (length img_metas) al) ! i)
                       (cat_levels (length img_metas) (map per_image bbox_preds) ! i)
                else cat_levels (length img_metas) (map per_image bbox_preds) ! i)
               (cat_levels (length img_metas) (bbox_targets_list tg) ! i)
               (cat_levels (length img_metas) (bbox_weights_list tg) ! i)
               (real (num_total_pos tg)))"
    if i: "i < length losses_cls" for i
    using each [OF i] loss_single_OHEM_divides [OF each [OF i]] by blast
  have len: "length losses_bbox = length losses_cls" unfolding pl pb by (rule refl)
  show ?thesis
    apply (rule exI [where x = al], rule exI [where x = vfl], rule exI [where x = tg])
    using ga gt s' [unfolded srs] tp sum_max_one [of srs] len both [unfolded tp]
    by blast
qed

text \<open>The claim as stated fails for a batch of one image whose only anchor is negative:
  there is no positive anchor, \<open>num_total_pos\<close> is 1, and the loss of the image is its
  loss with normalizer 1.\<close>

theorem num_total_pos_counterexample:
  "get_targets (demo_cfg True) (demo_collab [(0, 0, 1, 1)] [True] [BACKGROUND] [1])
     [[[(0, 0, 1, 1)]]] [[[True]]] [[]] [\<lparr>img_shape = (10, 10)\<rparr>] None (Some [[]]) [[]]
     False True =
     Inr (Some background_targets) \<and>
   sampling_results_list background_targets = Some [background_sampling] \<and>
   sum_list (map (\<lambda>sr. length (pos_inds sr)) [background_sampling]) = 0 \<and>
   num_total_pos background_targets = 1 \<and>
   loss (demo_cfg True) (demo_collab [(0, 0, 1, 1)] [True] [BACKGROUND] [1]) finite_scores
     finite_deltas [[]] [[]] [\<lparr>img_shape = (10, 10)\<rparr>] [[]] None =
     Inr (Some (([1], [0]), [background_sampling])) \<and>
   loss_single_OHEM (demo_cfg True) (demo_collab [(0, 0, 1, 1)] [True] [BACKGROUND] [1])
     [[Finite 1, Finite 0, Finite 0]] [[Finite 0, Finite 0, Finite 0, Finite 2]]
     [(0, 0, 1, 1)] [2] [1] [(0, 0, 0, 0)] [(0, 0, 0, 0)] 1 = Inr (1, 0)"
proof -
  have l: "loss_single_OHEM (demo_cfg True) (demo_collab a f asg [1]) cs bp an [2] lw bt bw 1
     = Inr (1, 0)" for a f asg cs bp an lw bt bw
    by (simp add: loss_single_OHEM_def demo_cfg_simps demo_collab_simps ohem_pos_inds_def
        ohem_neg_inds_def nonzero_def index_select_def topk_def then_do_def)
  have c: "cat_levels (Suc 0) [[a]] = [a]" for a :: "'a list"
    by (simp add: cat_levels_def)
  have v: "loss (demo_cfg True) (demo_collab [(0, 0, 1, 1)] [True] [BACKGROUND] [1])
     finite_scores finite_deltas [[]] [[]] [\<lparr>img_shape = (10, 10)\<rparr>] [[]] None =
     Inr (Some (([1], [0]), [background_sampling]))"
    unfolding loss_def
    by (simp add: demo_collab_simps demo_cfg_simps one_background_image all_finite_def
        then_do_def background_targets_def c finite_scores_def finite_deltas_def
        multi_apply_def l)
  show ?thesis
    using one_background_image [of True "[(0, 0, 1, 1)]" "[True]" "[1]"
        "\<lparr>img_shape = (10, 10)\<rparr>" False] v l
    by (simp add: background_targets_def background_sampling_def)
qed

text \<open>The theorem for the batch of two images, with one positive anchor and none: the
  normalizer is 2.\<close>

theorem loss_num_total_samples_witness:
  "use_ohem (demo_cfg True) \<and>
   loss (demo_cfg True) ohem_collab ohem_scores ohem_deltas [[(4, 4, 8, 8)], []] [[1], []]
     [\<lparr>img_shape = (12, 12)\<rparr>, \<lparr>img_shape = (12, 12)\<rparr>] [[], []] None =
     Inr (Some (([5, 6], [3 / 2, 3 / 2]), ohem_sampling)) \<and>
   sum_list (map (\<lambda>sr. max (length (pos_inds sr)) 1) ohem_sampling) = 2 \<and>
   sum_list (map (\<lambda>sr. length (pos_inds sr)) ohem_sampling) = 1 \<and>
   (\<exists>al vfl tg.
     get_anchors ohem_collab (map featmap_size ohem_scores) [\<lparr>img_shape = (12, 12)\<rparr>, \<lparr>img_shape = (12, 12)\<rparr>] = (al, vfl) \<and>
     get_targets (demo_cfg True) ohem_collab al vfl [[(4, 4, 8, 8)], []]
       [\<lparr>img_shape = (12, 12)\<rparr>, \<lparr>img_shape = (12, 12)\<rparr>] None (Some [[1], []]) [[], []] False True =
       Inr (Some tg) \<and>
     sampling_results_list tg = Some ohem_sampling \<and>
     num_total_pos tg = sum_list (map (\<lambda>sr. max (length (pos_inds sr)) 1) ohem_sampling) \<and>
     sum_list (map (\<lambda>sr. max (length (pos_inds sr)) 1) ohem_sampling) =
       sum_list (map (\<lambda>sr. length (pos_inds sr)) ohem_sampling) +
       length (filter (\<lambda>sr. pos_inds sr = []) ohem_sampling) \<and>
     length [3 / 2, 3 / 2 :: real] = length [5, 6 :: real] \<and>
     (\<forall>i < length [5, 6 :: real].
        loss_single_OHEM (demo_cfg True) ohem_collab
          (cat_levels (length [\<lparr>img_shape = (12, 12)\<rparr>, \<lparr>img_shape = (12, 12)\<rparr>]) (map per_image ohem_scores) ! i)
          (cat_levels (length [\<lparr>img_shape = (12, 12)\<rparr>, \<lparr>img_shape = (12, 12)\<rparr>]) (map per_image ohem_deltas) ! i)
          (map concat (take (length [\<lparr>img_shape = (12, 12)\<rparr>, \<lparr>img_shape = (12, 12)\<rparr>]) al) ! i)
          (cat_levels (length [\<lparr>img_shape = (12, 12)\<rparr>, \<lparr>img_shape = (12, 12)\<rparr>]) (labels_list tg) ! i)
          (cat_levels (length [\<lparr>img_shape = (12, 12)\<rparr>, \<lparr>img_shape = (12, 12)\<rparr>]) (label_weights_list tg) ! i)
          (cat_levels (length [\<lparr>img_shape = (12, 12)\<rparr>, \<lparr>img_shape = (12, 12)\<rparr>]) (bbox_targets_list tg) ! i)
          (cat_levels (length [\<lparr>img_shape = (12, 12)\<rparr>, \<lparr>img_shape = (12, 12)\<rparr>]) (bbox_weights_list tg) ! i)
          (real (sum_list (map (\<lambda>sr. max (length (pos_inds sr)) 1) ohem_sampling))) =
          Inr ([5, 6] ! i, [3 / 2, 3 / 2] ! i) \<and>
        (\<exists>s b1.
           loss_single_OHEM (demo_cfg True) ohem_collab
          (cat_levels (length [\<lparr>img_shape = (12, 12)\<rparr>, \<lparr>img_shape = (12, 12)\<rparr>]) (map per_image ohem_scores) ! i)
          (cat_levels (length [\<lparr>img_shape = (12, 12)\<rparr>, \<lparr>img_shape = (12, 12)\<rparr>]) (map per_image ohem_deltas) ! i)
          (map concat (take (length [\<lparr>img_shape = (12, 12)\<rparr>, \<lparr>img_shape = (12, 12)\<rparr>]) al) ! i)
          (cat_levels (length [\<lparr>img_shape = (12, 12)\<rparr>, \<lparr>img_shape = (12, 12)\<rparr>]) (labels_list tg) ! i)
          (cat_levels (length [\<lparr>img_shape = (12, 12)\<rparr>, \<lparr>img_shape = (12, 12)\<rparr>]) (label_weights_list tg) ! i)
          (cat_levels (length [\<lparr>img_shape = (12, 12)\<rparr>, \<lparr>img_shape = (12, 12)\<rparr>]) (bbox_targets_list tg) ! i)
          (cat_levels (length [\<lparr>img_shape = (12, 12)\<rparr>, \<lparr>img_shape = (12, 12)\<rparr>]) (bbox_weights_list tg) ! i)
          1 = Inr (s, b1) \<and>
           [5, 6] ! i = s / (real (sum_list (map (\<lambda>sr. max (length (pos_inds sr)) 1) ohem_sampling))) \<and>
           [3 / 2, 3 / 2] ! i =
             loss_bbox ohem_collab
               (if reg_decoded_bbox (demo_cfg True)
                then decode ohem_collab (map concat (take (length [\<lparr>img_shape = (12, 12)\<rparr>, \<lparr>img_shape = (12, 12)\<rparr>]) al) ! i)
                       (cat_levels (length [\<lparr>img_shape = (12, 12)\<rparr>, \<lparr>img_shape = (12, 12)\<rparr>]) (map per_image ohem_deltas) ! i)
                else cat_levels (length [\<lparr>img_shape = (12, 12)\<rparr>, \<lparr>img_shape = (12, 12)\<rparr>]) (map per_image ohem_deltas) ! i)
               (cat_levels (length [\<lparr>img_shape = (12, 12)\<rparr>, \<lparr>img_shape = (12, 12)\<rparr>]) (bbox_targets_list tg) ! i)
               (cat_levels (length [\<lparr>img_shape = (12, 12)\<rparr>, \<lparr>img_shape = (12, 12)\<rparr>]) (bbox_weights_list tg) ! i)
               (real (sum_list (map (\<lambda>sr. max (length (pos_inds sr)) 1) ohem_sampling))))))"
proof -
  have o: "use_ohem (demo_cfg True)" by (simp add: demo_cfg_simps)
  have n: "sum_list (map (\<lambda>sr. max (length (pos_inds sr)) 1) ohem_sampling) = 2"
    "sum_list (map (\<lambda>sr. length (pos_inds sr)) ohem_sampling) = 1"
    by (simp_all add: ohem_sampling_def)
  show ?thesis
    using o ohem_batch_loss n loss_num_total_samples [OF o ohem_batch_loss]
    by (intro conjI)
qed

section \<open>The finiteness assertions of the loss\<close>

lemma index_select_error: "index_select xs inds = Inl e \<Longrightarrow> e = IndexError"
  by (simp add: index_select_def split: if_splits)

lemma topk_error: "topk xs k = Inl e \<Longrightarrow> e = RuntimeError"
  by (simp add: topk_def split: if_splits)

lemma loss_single_OHEM_error:
  assumes "loss_single_OHEM cfg ext cs bp an ls lw bt bw n = Inl e"
  shows "e = IndexError \<or> e = RuntimeError"
  using assms
  unfolding loss_single_OHEM_def Let_def then_do_def
  by (auto split: sum.splits dest: index_select_error topk_error)

lemma map_raising_error:
  "map_raising f xs = Inl e \<Longrightarrow> \<exists>x \<in> set xs. f x = Inl e"
  by (induction xs) (auto simp: then_do_def split: sum.splits)

lemma images_to_levels_error: "images_to_levels t n = Inl e \<Longrightarrow> e = RuntimeError"
  by (simp add: images_to_levels_def split: if_splits)

lemma then_do_Inr: "then_do (Inr x) f = f x"
  by (simp add: then_do_def)

lemma then_do_Inl: "then_do (Inl e) f = Inl e"
  by (simp add: then_do_def)

lemma multi_apply_error:
  "multi_apply f args = Inl e \<Longrightarrow> \<exists>x \<in> set args. f x = Inl e"
  unfolding multi_apply_def then_do_def
  by (auto split: sum.splits dest: map_raising_error)

lemma then_do_multi_apply_no_assert:
  assumes "then_do (multi_apply f args) k = Inl (AssertionError m)"
    and "\<And>x. f x \<noteq> Inl (AssertionError m)"
    and "\<And>r. k r \<noteq> Inl (AssertionError m)"
  shows False
proof (cases "multi_apply f args")
  case (Inl e)
  then show False
    using assms(1,2) multi_apply_error [of f args e] by (auto simp: then_do_def)
next
  case (Inr r)
  then show False using assms(1,3) by (simp add: then_do_def)
qed

lemma ohem_image_no_assert:
  "then_do (loss_single_OHEM cfg ext cs bp an ls lw bt bw n) (\<lambda>p. Inr (g p)) \<noteq>
     Inl (AssertionError m)"
  by (auto simp: then_do_def split: sum.splits dest: loss_single_OHEM_error)

text \<open>
  Claim C9, as amended. Take a call of \<open>loss\<close> with as many levels as the anchor
  generator has and for which target assignment returns targets. With OHEM, a
  non-finite classification score raises the first assertion, finite scores with a
  non-finite box prediction raise the second, and when all predictions are finite
  neither assertion is raised. Without OHEM neither assertion is ever raised: that
  branch has no finiteness check.
\<close>

theorem loss_finite_assertions:
  assumes lv: "length cls_scores = num_levels cfg"
    and tg: "get_targets cfg ext
               (fst (get_anchors ext (map featmap_size cls_scores) metas))
               (snd (get_anchors ext (map featmap_size cls_scores) metas))
               gtb metas ign (Some gl) gm (\<not> use_ohem cfg) True = Inr (Some tg)"
  shows "(use_ohem cfg \<longrightarrow>
           (\<not> all_finite cls_scores \<longrightarrow>
              loss cfg ext cls_scores bbox_preds gtb gl metas gm ign =
                Inl (AssertionError cls_scores_msg)) \<and>
           (all_finite cls_scores \<and> \<not> all_finite bbox_preds \<longrightarrow>
              loss cfg ext cls_scores bbox_preds gtb gl metas gm ign =
                Inl (AssertionError bbox_preds_msg)) \<and>
           (all_finite cls_scores \<and> all_finite bbox_preds \<longrightarrow>
              loss cfg ext cls_scores bbox_preds gtb gl metas gm ign \<noteq>
                Inl (AssertionError cls_scores_msg) \<and>
              loss cfg ext cls_scores bbox_preds gtb gl metas gm ign \<noteq>
                Inl (AssertionError bbox_preds_msg))) \<and>
         (\<not> use_ohem cfg \<longrightarrow>
            loss cfg ext cls_scores bbox_preds gtb gl metas gm ign \<noteq>
              Inl (AssertionError cls_scores_msg) \<and>
            loss cfg ext cls_scores bbox_preds gtb gl metas gm ign \<noteq>
              Inl (AssertionError bbox_preds_msg))"
proof (cases "use_ohem cfg")
  case True
  have A: "loss cfg ext cls_scores bbox_preds gtb gl metas gm ign =
      Inl (AssertionError cls_scores_msg)" if "\<not> all_finite cls_scores"
    using that lv tg True
    by (simp add: loss_def Let_def split_def then_do_Inr)
  have B: "loss cfg ext cls_scores bbox_preds gtb gl metas gm ign =
      Inl (AssertionError bbox_preds_msg)"
    if "all_finite cls_scores" "\<not> all_finite bbox_preds"
    using that lv tg True
    by (simp add: loss_def Let_def split_def then_do_Inr)
  have C: "loss cfg ext cls_scores bbox_preds gtb gl metas gm ign \<noteq>
      Inl (AssertionError m)"
    if fin: "all_finite cls_scores" "all_finite bbox_preds" for m
  proof
    assume "loss cfg ext cls_scores bbox_preds gtb gl metas gm ign =
      Inl (AssertionError m)"
    then show False
      using fin lv tg True
      apply (simp add: loss_def Let_def then_do_Inr split: prod.splits)
      apply (erule then_do_multi_apply_no_assert)
       apply (simp add: split_def ohem_image_no_assert)
      apply (simp split: list.splits)
      done
  qed
  show ?thesis using True A B C by blast
next
  case False
  have D: "loss cfg ext cls_scores bbox_preds gtb gl metas gm ign \<noteq>
      Inl (AssertionError m)" for m
  proof
    assume "loss cfg ext cls_scores bbox_preds gtb gl metas gm ign =
      Inl (AssertionError m)"
    then show False
      using lv tg False
      apply (simp add: loss_def Let_def then_do_Inr split: prod.splits)
      apply (cases "images_to_levels
          (map concat (fst (get_anchors ext (map featmap_size cls_scores) metas)))
          (map length (fst (get_anchors ext (map featmap_size cls_scores) metas) ! 0))")
       apply (auto simp: then_do_Inl then_do_Inr dest: images_to_levels_error)[1]
      apply (simp add: then_do_Inr)
      apply (erule then_do_multi_apply_no_assert)
       apply (simp add: split_def)
      apply (simp split: list.splits)
      done
  qed
  show ?thesis using False D by blast
qed


text \<open>The theorem with OHEM, on class scores with a NaN and on finite ones.\<close>

theorem loss_finite_assertions_witness:
  "\<not> all_finite nan_scores \<and>
   loss (demo_cfg True) (demo_collab [(0, 0, 1, 1)] [True] [BACKGROUND] [1]) nan_scores
     finite_deltas [[]] [[]] [\<lparr>img_shape = (10, 10)\<rparr>] [[]] None =
     Inl (AssertionError cls_scores_msg) \<and>
   all_finite finite_scores \<and> all_finite finite_deltas \<and>
   loss (demo_cfg True) (demo_collab [(0, 0, 1, 1)] [True] [BACKGROUND] [1]) finite_scores
     finite_deltas [[]] [[]] [\<lparr>img_shape = (10, 10)\<rparr>] [[]] None \<noteq>
     Inl (AssertionError cls_scores_msg)"
proof -
  let ?cfg = "demo_cfg True"
  let ?ext = "demo_collab [(0, 0, 1, 1)] [True] [BACKGROUND] [1]"
  let ?metas = "[\<lparr>img_shape = (10, 10)\<rparr>]"
  have f1: "\<not> all_finite nan_scores"
    by (simp add: all_finite_def nan_scores_def)
  have f2: "all_finite finite_scores"
    by (simp add: all_finite_def finite_scores_def)
  have f3: "all_finite finite_deltas"
    by (simp add: all_finite_def finite_deltas_def)
  have lv1: "length nan_scores = num_levels ?cfg"
    by (simp add: nan_scores_def demo_cfg_simps)
  have lv2: "length finite_scores = num_levels ?cfg"
    by (simp add: finite_scores_def demo_cfg_simps)
  have tg1: "get_targets ?cfg ?ext
               (fst (get_anchors ?ext (map featmap_size nan_scores) ?metas))
               (snd (get_anchors ?ext (map featmap_size nan_scores) ?metas))
               [[]] ?metas None (Some [[]]) [[]] (\<not> use_ohem ?cfg) True =
             Inr (Some background_targets)"
    by (simp add: demo_collab_simps one_background_image)
  have tg2: "get_targets ?cfg ?ext
               (fst (get_anchors ?ext (map featmap_size finite_scores) ?metas))
               (snd (get_anchors ?ext (map featmap_size finite_scores) ?metas))
               [[]] ?metas None (Some [[]]) [[]] (\<not> use_ohem ?cfg) True =
             Inr (Some background_targets)"
    by (simp add: demo_collab_simps one_background_image)
  have o: "use_ohem ?cfg" by (simp add: demo_cfg_simps)
  show ?thesis
    using f1 f2 f3 o loss_finite_assertions [OF lv1 tg1, of finite_deltas]
      loss_finite_assertions [OF lv2 tg2, of finite_deltas]
    by blast
qed

text \<open>The claim as stated fails without OHEM: the class scores hold a NaN and the loss
  is returned.\<close>

theorem loss_without_ohem_counterexample:
  "\<not> all_finite nan_scores \<and>
   loss (demo_cfg False) (demo_collab [(0, 0, 1, 1)] [True] [BACKGROUND] [1]) nan_scores
     finite_deltas [[]] [[]] [\<lparr>img_shape = (10, 10)\<rparr>] [[]] None =
     Inr (Some (([0], [0]), [background_sampling]))"
proof -
  have f1: "\<not> all_finite nan_scores"
    by (simp add: all_finite_def nan_scores_def)
  have l: "loss (demo_cfg False) (demo_collab [(0, 0, 1, 1)] [True] [BACKGROUND] [1])
     nan_scores finite_deltas [[]] [[]] [\<lparr>img_shape = (10, 10)\<rparr>] [[]] None =
     Inr (Some (([0], [0]), [background_sampling]))"
    unfolding loss_def
    by (simp add: demo_collab_simps demo_cfg_simps one_background_image then_do_def
        nan_scores_def finite_deltas_def background_targets_def images_to_levels_def
        multi_apply_def)
  show ?thesis using f1 l by blast
qed


section \<open>Re-expansion of the targets\<close>

















end
